theory Spec2Isabelle
  imports Complex_Main
begin

section \<open>The turn router of the main dialog\<close>

text \<open>
  A shallow embedding of \<^verbatim>\<open>src/dialogs/main/index.ts\<close> (class \<^verbatim>\<open>MainDialog\<close>).
  The router drives collaborators that are not part of the file: the dialog stack of
  botbuilder-dialogs, the user-state accessor, the LUIS recognizers, the chitchat
  dialog's interruption test and the localizer. They are opaque here: a record of
  functions over an arbitrary state \<open>'s\<close> of the dialog context. Every call the router
  makes on a collaborator is also written to a list of calls, in order, so that "what the
  router did on this turn" is a value.
\<close>

subsection \<open>Data\<close>

text \<open>
  Strings are lists of characters. Which characters a text outside ASCII is made of
  does not matter below: the router compares strings, tests one for being empty, and
  hands them to the runtime and to the collaborators.
\<close>

text \<open>
  \<^verbatim>\<open>DialogTurnStatus\<close> of botbuilder-dialogs. The router names three members
  (\<^verbatim>\<open>empty\<close>, \<^verbatim>\<open>waiting\<close>, \<^verbatim>\<open>complete\<close>); every other value a status can hold at run time
  (such as \<^verbatim>\<open>cancelled\<close>) is \<open>Other\<close> with its name. The string literal \<^verbatim>\<open>'complete'\<close> of
  line 162 is the run-time value of \<^verbatim>\<open>DialogTurnStatus.complete\<close>.
\<close>

datatype DialogTurnStatus = Empty | Waiting | Complete | Other string

text \<open>\<^verbatim>\<open>DialogTurnResult\<close>: the status and an optional result of type \<^verbatim>\<open>any\<close> (here \<open>'a\<close>).\<close>

record 'a DialogTurnResult =
  status :: DialogTurnStatus
  result :: "'a option"

text \<open>
  \<^verbatim>\<open>UserData\<close>: the persisted record of a user. \<open>None\<close> is JavaScript's \<^verbatim>\<open>undefined\<close>.
\<close>

record UserData =
  userData_locale :: "string option"

text \<open>
  Modelled from the spec: the class \<^verbatim>\<open>UserData\<close> of \<^verbatim>\<open>../shared/userData\<close> is not among
  the sources; a record is "created lazily on first access with a default empty locale".
\<close>

definition new_UserData :: UserData where
  "new_UserData = \<lparr>userData_locale = Some []\<rparr>"

datatype ActivityType = Message | ConversationUpdate | OtherActivity string

text \<open>
  The fields of \<^verbatim>\<open>context.activity\<close> that the router reads. An absent field is \<open>None\<close>.
  Attachments are opaque values; members are given by their ids.
\<close>

record 'a Activity =
  activity_type :: ActivityType
  activity_text :: "string option"
  activity_attachments :: "'a list option"
  activity_locale :: "string option"
  activity_membersAdded :: "string list option"
  activity_recipient_id :: string

text \<open>
  \<^verbatim>\<open>RecognizerResult\<close>: the intents with their scores, in the order of the object's keys,
  and the entities (of type \<^verbatim>\<open>any\<close>). Scores are doubles in the source; only their order is
  used, so a score is the rational number it denotes.
\<close>

record 'a RecognizerResult =
  intents :: "(string \<times> rat) list"
  entities :: "'a"

datatype error = TypeError string

text \<open>The calls of the router on its collaborators, as they appear in the source.\<close>

datatype 'a Call =
    UserDataSet UserData
  | CancelAllDialogs
  | BeginDialog string "'a option"
  | ContinueDialog
  | RepromptDialog
  | SendActivity string
  | Recognize string
  | IsTurnInterrupted string

text \<open>
  The collaborators. \<open>trim\<close> and \<open>toLowerCase\<close> are \<^verbatim>\<open>String.prototype.trim\<close> and
  \<^verbatim>\<open>String.prototype.toLowerCase\<close> of the JavaScript runtime, with all of Unicode's white
  space and letters: they are taken as they are, as functions on strings, and nothing
  below depends on what they compute. \<open>gettext\<close>, \<open>getLocale\<close> and \<open>getLocales\<close> are
  the localizer; \<open>luisRecognizers\<close> is the dictionary from locale to recognizer; the
  others are the methods and properties of \<^verbatim>\<open>dc\<close>, \<^verbatim>\<open>dc.context\<close>, \<^verbatim>\<open>userDataAccessor\<close>
  and \<^verbatim>\<open>chitchatDialog\<close> that the router uses. \<open>userDataAccessor_get\<close> is the stored
  record, if there is one. The options of \<open>beginDialog\<close> are \<open>None\<close> when the call
  passes none and \<open>Some e\<close> for the object \<^verbatim>\<open>{ entities: e }\<close>.
\<close>

record ('s, 'a) Collaborators =
  trim :: "string \<Rightarrow> string"
  toLowerCase :: "string \<Rightarrow> string"
  gettext :: "string \<Rightarrow> string \<Rightarrow> string"
  getLocale :: string
  getLocales :: "string list"
  luisRecognizers :: "string \<Rightarrow> ('s \<Rightarrow> 'a RecognizerResult) option"
  isTurnInterrupted :: "string \<Rightarrow> 's \<Rightarrow> bool \<times> 's"
  userDataAccessor_get :: "'s \<Rightarrow> UserData option"
  userDataAccessor_set :: "UserData \<Rightarrow> 's \<Rightarrow> 's"
  activeDialog :: "'s \<Rightarrow> string option"
  responded :: "'s \<Rightarrow> bool"
  continueDialog :: "'s \<Rightarrow> 'a DialogTurnResult \<times> 's"
  beginDialog :: "string \<Rightarrow> 'a option \<Rightarrow> 's \<Rightarrow> 'a DialogTurnResult \<times> 's"
  repromptDialog :: "'s \<Rightarrow> 's"
  cancelAllDialogs :: "'s \<Rightarrow> 's"
  sendActivity :: "string \<Rightarrow> 's \<Rightarrow> 's"

text \<open>The state of a turn: the dialog context and the calls made so far.\<close>

record ('s, 'a) Turn =
  dc :: 's
  calls :: "'a Call list"

subsection \<open>Constants of the source\<close>

definition GREETING_INTENT :: string where
  "GREETING_INTENT = ''Greeting''"

definition NONE_INTENT :: string where
  "NONE_INTENT = ''None''"

definition LUIS_CONFIDENCE_THRESHOLD :: rat where
  "LUIS_CONFIDENCE_THRESHOLD = 7 / 10"

definition DIALOG_TURN_RESULT_DEFAULT :: "'a DialogTurnResult" where
  "DIALOG_TURN_RESULT_DEFAULT = \<lparr>status = Waiting, result = None\<rparr>"

text \<open>The names of the dialog classes (\<^verbatim>\<open>QnADialog.name\<close> and so on).\<close>

definition QnADialog_name :: string where
  "QnADialog_name = ''QnADialog''"

definition CancelDialog_name :: string where
  "CancelDialog_name = ''CancelDialog''"

definition GreetingDialog_name :: string where
  "GreetingDialog_name = ''GreetingDialog''"

definition WelcomeDialog_name :: string where
  "WelcomeDialog_name = ''WelcomeDialog''"

subsection \<open>Calls on the collaborators\<close>

definition userDataAccessor_set_call ::
  "('s, 'a) Collaborators \<Rightarrow> UserData \<Rightarrow> ('s, 'a) Turn \<Rightarrow> ('s, 'a) Turn" where
  "userDataAccessor_set_call E userData w =
     \<lparr>dc = userDataAccessor_set E userData (dc w), calls = calls w @ [UserDataSet userData]\<rparr>"

text \<open>
  Modelled from the spec: the accessor is botbuilder's and not among the sources.
  \<^verbatim>\<open>userDataAccessor.get(context, defaultValue)\<close> gives the stored record; when none is
  stored, the record is "created lazily on first access with a default empty locale":
  the default is stored and returned. This is the accessor's own doing and no call of
  the router.
\<close>

definition userDataAccessor_get_default ::
  "('s, 'a) Collaborators \<Rightarrow> UserData \<Rightarrow> ('s, 'a) Turn \<Rightarrow> UserData \<times> ('s, 'a) Turn" where
  "userDataAccessor_get_default E defaultValue w =
     (case userDataAccessor_get E (dc w) of
        None \<Rightarrow>
          (defaultValue,
           \<lparr>dc = userDataAccessor_set E defaultValue (dc w), calls = calls w\<rparr>)
      | Some userData \<Rightarrow> (userData, w))"

definition dc_cancelAllDialogs :: "('s, 'a) Collaborators \<Rightarrow> ('s, 'a) Turn \<Rightarrow> ('s, 'a) Turn" where
  "dc_cancelAllDialogs E w =
     \<lparr>dc = cancelAllDialogs E (dc w), calls = calls w @ [CancelAllDialogs]\<rparr>"

definition dc_repromptDialog :: "('s, 'a) Collaborators \<Rightarrow> ('s, 'a) Turn \<Rightarrow> ('s, 'a) Turn" where
  "dc_repromptDialog E w =
     \<lparr>dc = repromptDialog E (dc w), calls = calls w @ [RepromptDialog]\<rparr>"

definition context_sendActivity ::
  "('s, 'a) Collaborators \<Rightarrow> string \<Rightarrow> ('s, 'a) Turn \<Rightarrow> ('s, 'a) Turn" where
  "context_sendActivity E msg w =
     \<lparr>dc = sendActivity E msg (dc w), calls = calls w @ [SendActivity msg]\<rparr>"

definition dc_continueDialog ::
  "('s, 'a) Collaborators \<Rightarrow> ('s, 'a) Turn \<Rightarrow> 'a DialogTurnResult \<times> ('s, 'a) Turn" where
  "dc_continueDialog E w =
     (case continueDialog E (dc w) of
        (r, s) \<Rightarrow> (r, \<lparr>dc = s, calls = calls w @ [ContinueDialog]\<rparr>))"

definition dc_beginDialog ::
  "('s, 'a) Collaborators \<Rightarrow> string \<Rightarrow> 'a option \<Rightarrow> ('s, 'a) Turn
     \<Rightarrow> 'a DialogTurnResult \<times> ('s, 'a) Turn" where
  "dc_beginDialog E name options w =
     (case beginDialog E name options (dc w) of
        (r, s) \<Rightarrow> (r, \<lparr>dc = s, calls = calls w @ [BeginDialog name options]\<rparr>))"

definition chitchat_isTurnInterrupted ::
  "('s, 'a) Collaborators \<Rightarrow> string \<Rightarrow> ('s, 'a) Turn \<Rightarrow> bool \<times> ('s, 'a) Turn" where
  "chitchat_isTurnInterrupted E topIntent w =
     (case isTurnInterrupted E topIntent (dc w) of
        (b, s) \<Rightarrow> (b, \<lparr>dc = s, calls = calls w @ [IsTurnInterrupted topIntent]\<rparr>))"

text \<open>
  \<^verbatim>\<open>this.luisRecognizers[locale].recognize(dc.context)\<close>: a locale without an entry in the
  dictionary gives \<^verbatim>\<open>undefined\<close>, and the method call on it throws a TypeError.
\<close>

definition luis_recognize ::
  "('s, 'a) Collaborators \<Rightarrow> string \<Rightarrow> ('s, 'a) Turn
     \<Rightarrow> error + ('a RecognizerResult \<times> ('s, 'a) Turn)" where
  "luis_recognize E locale w =
     (case luisRecognizers E locale of
        None \<Rightarrow> Inl (TypeError ''luisRecognizers[locale] is undefined'')
      | Some recognizer \<Rightarrow>
          Inr (recognizer (dc w), \<lparr>dc = dc w, calls = calls w @ [Recognize locale]\<rparr>))"

subsection \<open>The top intent\<close>

text \<open>
  Modelled from the spec: \<^verbatim>\<open>LuisRecognizer.topIntent\<close> belongs to botbuilder-ai and is not
  among the sources. The spec: "obtain the top intent and its confidence. If the top
  confidence is below a fixed threshold (0.7), the effective top intent is forced to
  None regardless of the raw top label." The top intent is the first one of highest
  score; with no intent at all, or with \<^verbatim>\<open>undefined\<close> as the default, the default is None.
\<close>

fun rawTopIntent :: "(string \<times> rat) list \<Rightarrow> (string \<times> rat) option" where
  "rawTopIntent [] = None"
| "rawTopIntent ((name, score) # rest) =
     (case rawTopIntent rest of
        None \<Rightarrow> Some (name, score)
      | Some (name', score') \<Rightarrow> if score' > score then Some (name', score') else Some (name, score))"

text \<open>
  Modelled from the spec: the top intent with the threshold, as
  \<^verbatim>\<open>LuisRecognizer.topIntent(results, defaultIntent, minScore)\<close> is called in line 169.
\<close>

definition LuisRecognizer_topIntent ::
  "'a RecognizerResult \<Rightarrow> string option \<Rightarrow> rat \<Rightarrow> string" where
  "LuisRecognizer_topIntent results defaultIntent minScore =
     (let dflt = (case defaultIntent of None \<Rightarrow> ''None'' | Some d \<Rightarrow> d) in
      case rawTopIntent (intents results) of
        None \<Rightarrow> dflt
      | Some (name, score) \<Rightarrow> if score < minScore then dflt else name)"

subsection \<open>The locale of the user\<close>

text \<open>\<^verbatim>\<open>getUserLocale\<close>, lines 275 to 284.\<close>

definition getUserLocale :: "('s, 'a) Collaborators \<Rightarrow> ('s, 'a) Turn \<Rightarrow> string option" where
  "getUserLocale E w =
     (case userDataAccessor_get E (dc w) of
        None \<Rightarrow> None
      | Some userData \<Rightarrow> userData_locale userData)"

text \<open>
  \<^verbatim>\<open>setUserLocale\<close>, lines 292 to 300. \<open>newLocale\<close> is a string or \<^verbatim>\<open>undefined\<close> (\<open>None\<close>),
  since the source tests for both. The accessor is read with a fresh record as default
  (line 294).
\<close>

definition setUserLocale ::
  "('s, 'a) Collaborators \<Rightarrow> string option \<Rightarrow> ('s, 'a) Turn \<Rightarrow> ('s, 'a) Turn" where
  "setUserLocale E newLocale w =
     (case userDataAccessor_get_default E new_UserData w of
        (userData, w') \<Rightarrow>
          if userData_locale userData \<noteq> newLocale \<and> newLocale \<noteq> Some [] \<and> newLocale \<noteq> None
          then userDataAccessor_set_call E (userData\<lparr>userData_locale := newLocale\<rparr>) w'
          else w')"

text \<open>
  Lines 103 to 113 of \<^verbatim>\<open>onContinueDialog\<close>: the locale the turn is dispatched with, and
  the state after the locale has been stored. \<^verbatim>\<open>x || y\<close> takes \<open>y\<close> when \<open>x\<close> is
  \<^verbatim>\<open>undefined\<close> or the empty string.
\<close>

definition resolveLocale ::
  "('s, 'a) Collaborators \<Rightarrow> 'b Activity \<Rightarrow> ('s, 'a) Turn \<Rightarrow> string \<times> ('s, 'a) Turn" where
  "resolveLocale E act w =
     (let locale = (case getUserLocale E w of None \<Rightarrow> [] | Some l \<Rightarrow> l) in
      if locale = [] then
        (let hinted = (case activity_locale act of
                         None \<Rightarrow> getLocale E
                       | Some l \<Rightarrow> if l = [] then getLocale E else l);
             locale' = (if hinted \<notin> set (getLocales E) then getLocale E else hinted)
         in (locale', setUserLocale E (Some locale') w))
      else (locale, w))"

subsection \<open>Routing a message\<close>

text \<open>
  Line 140: the text of the activity, trimmed and in lower case, by the runtime's two
  functions. \<^verbatim>\<open>text || ''\<close> is the empty string for an absent text.
\<close>

definition utterance_of :: "('s, 'a) Collaborators \<Rightarrow> 'b Activity \<Rightarrow> string" where
  "utterance_of E act =
     toLowerCase E (trim E (case activity_text act of None \<Rightarrow> [] | Some t \<Rightarrow> t))"

text \<open>Line 143: \<^verbatim>\<open>attachments && attachments.length > 0\<close>.\<close>

definition hasAttachments :: "'b Activity \<Rightarrow> bool" where
  "hasAttachments act =
     (case activity_attachments act of None \<Rightarrow> False | Some xs \<Rightarrow> length xs > 0)"

text \<open>
  Lines 158 to 165: an active QnA dialog is continued first, and a status
  \<^verbatim>\<open>complete\<close> is replaced by \<^verbatim>\<open>empty\<close>.
\<close>

definition continueQnA ::
  "('s, 'a) Collaborators \<Rightarrow> ('s, 'a) Turn \<Rightarrow> 'a DialogTurnResult \<times> ('s, 'a) Turn" where
  "continueQnA E w =
     (if activeDialog E (dc w) = Some QnADialog_name then
        (case dc_continueDialog E w of
           (turnResult, w') \<Rightarrow>
             if status turnResult = Complete
             then (turnResult\<lparr>status := Empty\<rparr>, w')
             else (turnResult, w'))
      else (DIALOG_TURN_RESULT_DEFAULT, w))"

text \<open>Lines 171 to 186: the interruption test and what follows from it.\<close>

definition interruptionStep ::
  "('s, 'a) Collaborators \<Rightarrow> string \<Rightarrow> 'a DialogTurnResult \<Rightarrow> ('s, 'a) Turn
     \<Rightarrow> 'a DialogTurnResult \<times> ('s, 'a) Turn" where
  "interruptionStep E topIntent turnResult w =
     (case chitchat_isTurnInterrupted E topIntent w of
        (interrupted, w') \<Rightarrow>
          if interrupted then
            (case activeDialog E (dc w') of
               Some d \<Rightarrow>
                 if d \<noteq> CancelDialog_name
                 then (turnResult, dc_repromptDialog E w')
                 else dc_continueDialog E w'
             | None \<Rightarrow> (turnResult, w'))
          else dc_continueDialog E w')"

text \<open>Lines 188 to 230: the dispatch on the status when nothing has been sent yet.\<close>

definition fallbackDispatch ::
  "('s, 'a) Collaborators \<Rightarrow> 'a RecognizerResult \<Rightarrow> string \<Rightarrow> 'a DialogTurnResult
     \<Rightarrow> ('s, 'a) Turn \<Rightarrow> 'a DialogTurnResult \<times> ('s, 'a) Turn" where
  "fallbackDispatch E results topIntent turnResult w =
     (if \<not> responded E (dc w) then
        (case status turnResult of
           Empty \<Rightarrow>
             if topIntent = GREETING_INTENT
             then dc_beginDialog E GreetingDialog_name (Some (entities results)) w
             else dc_beginDialog E QnADialog_name None w
         | Waiting \<Rightarrow> (turnResult, w)
         | Complete \<Rightarrow> (turnResult, w)
         | Other _ \<Rightarrow> (turnResult, dc_cancelAllDialogs E w))
      else (turnResult, w))"

text \<open>
  Lines 158 to 186 together: the steps of a turn that is not a command, up to the
  dispatch. The result holds what line 189 finds: the recognizer's results, the top
  intent, the turn result and the state.
\<close>

definition stepsBeforeDispatch ::
  "('s, 'a) Collaborators \<Rightarrow> string \<Rightarrow> ('s, 'a) Turn
     \<Rightarrow> error + ('a RecognizerResult \<times> string \<times> 'a DialogTurnResult \<times> ('s, 'a) Turn)" where
  "stepsBeforeDispatch E locale w =
     (case continueQnA E w of
        (turnResult, w1) \<Rightarrow>
          (case luis_recognize E locale w1 of
             Inl e \<Rightarrow> Inl e
           | Inr (results, w2) \<Rightarrow>
               (let topIntent = LuisRecognizer_topIntent results None LUIS_CONFIDENCE_THRESHOLD in
                case interruptionStep E topIntent turnResult w2 of
                  (turnResult', w3) \<Rightarrow> Inr (results, topIntent, turnResult', w3))))"

text \<open>\<^verbatim>\<open>routeMessage\<close>, lines 138 to 234.\<close>

definition routeMessage ::
  "('s, 'a) Collaborators \<Rightarrow> string \<Rightarrow> 'b Activity \<Rightarrow> ('s, 'a) Turn
     \<Rightarrow> error + ('a DialogTurnResult \<times> ('s, 'a) Turn)" where
  "routeMessage E locale act w =
     (let utterance = utterance_of E act in
      if length utterance = 0 \<and> hasAttachments act then
        Inr (DIALOG_TURN_RESULT_DEFAULT,
             context_sendActivity E (gettext E locale ''attachmentResponse'') w)
      else if utterance = toLowerCase E (gettext E locale ''restartCommand'') then
        (let userData = new_UserData\<lparr>userData_locale := Some locale\<rparr>;
             w1 = userDataAccessor_set_call E userData w;
             w2 = dc_cancelAllDialogs E w1
         in Inr (dc_beginDialog E WelcomeDialog_name None w2))
      else
        (case stepsBeforeDispatch E locale w of
           Inl e \<Rightarrow> Inl e
         | Inr (results, topIntent, turnResult, w') \<Rightarrow>
             Inr (fallbackDispatch E results topIntent turnResult w')))"

subsection \<open>Welcoming and the entry points\<close>

text \<open>
  \<^verbatim>\<open>welcomeUser\<close>, lines 241 to 268: the loop over the members added, beginning the
  Welcome dialog for each one that is the recipient of the activity.
\<close>

fun welcomeMembers ::
  "('s, 'a) Collaborators \<Rightarrow> string \<Rightarrow> string list \<Rightarrow> 'a DialogTurnResult \<times> ('s, 'a) Turn
     \<Rightarrow> 'a DialogTurnResult \<times> ('s, 'a) Turn" where
  "welcomeMembers E recipient [] (turnResult, w) = (turnResult, w)"
| "welcomeMembers E recipient (member # rest) (turnResult, w) =
     welcomeMembers E recipient rest
       (if member = recipient
        then dc_beginDialog E WelcomeDialog_name None w
        else (turnResult, w))"

definition welcomeUser ::
  "('s, 'a) Collaborators \<Rightarrow> 'b Activity \<Rightarrow> ('s, 'a) Turn
     \<Rightarrow> 'a DialogTurnResult \<times> ('s, 'a) Turn" where
  "welcomeUser E act w =
     (case activity_membersAdded act of
        None \<Rightarrow> (DIALOG_TURN_RESULT_DEFAULT, w)
      | Some members \<Rightarrow>
          if length members \<noteq> 0
          then welcomeMembers E (activity_recipient_id act) members
                 (DIALOG_TURN_RESULT_DEFAULT, w)
          else (DIALOG_TURN_RESULT_DEFAULT, w))"

text \<open>\<^verbatim>\<open>onContinueDialog\<close>, lines 99 to 136, and \<^verbatim>\<open>onBeginDialog\<close>, which calls it.\<close>

definition onContinueDialog ::
  "('s, 'a) Collaborators \<Rightarrow> 'b Activity \<Rightarrow> ('s, 'a) Turn
     \<Rightarrow> error + ('a DialogTurnResult \<times> ('s, 'a) Turn)" where
  "onContinueDialog E act w =
     (case resolveLocale E act w of
        (locale, w') \<Rightarrow>
          (case activity_type act of
             Message \<Rightarrow> routeMessage E locale act w'
           | ConversationUpdate \<Rightarrow> Inr (welcomeUser E act w')
           | OtherActivity _ \<Rightarrow> Inr (DIALOG_TURN_RESULT_DEFAULT, w')))"

definition onBeginDialog ::
  "('s, 'a) Collaborators \<Rightarrow> 'b Activity \<Rightarrow> ('s, 'a) Turn
     \<Rightarrow> error + ('a DialogTurnResult \<times> ('s, 'a) Turn)" where
  "onBeginDialog E act w = onContinueDialog E act w"

subsection \<open>A small instance of the collaborators\<close>

text \<open>
  For evaluating the router at concrete turns: a dialog stack of names, a stored user
  record, the replies sent, the dialogs begun with their options, and fixed answers of
  the recognizer, of the interruption test, of a continued dialog (the status it
  reports, and whether it replies) and of a reprompted one (whether it replies). Two
  locales are supported, \<^verbatim>\<open>en-us\<close> (the default) and \<^verbatim>\<open>es-es\<close>. The texts of the
  examples are ASCII, and the two string functions of the instance are what the
  runtime's are on such texts: tab to carriage return and the space are trimmed, and
  A to Z are mapped to a to z.
\<close>

record Stub =
  stub_stack :: "string list"
  stub_userData :: "UserData option"
  stub_responded :: bool
  stub_sent :: "string list"
  stub_begun :: "(string \<times> string option) list"
  stub_intents :: "(string \<times> rat) list"
  stub_interrupts :: bool
  stub_continues :: "DialogTurnStatus \<times> bool"
  stub_reprompt_replies :: bool

definition stub_isWhiteSpace :: "char \<Rightarrow> bool" where
  "stub_isWhiteSpace c = (let n = (of_char c :: nat) in (9 \<le> n \<and> n \<le> 13) \<or> n = 32)"

definition stub_trim :: "string \<Rightarrow> string" where
  "stub_trim s = rev (dropWhile stub_isWhiteSpace (rev (dropWhile stub_isWhiteSpace s)))"

definition stub_lowerChar :: "char \<Rightarrow> char" where
  "stub_lowerChar c =
     (let n = (of_char c :: nat) in if 65 \<le> n \<and> n \<le> 90 then char_of (n + 32) else c)"

definition stub_toLowerCase :: "string \<Rightarrow> string" where
  "stub_toLowerCase s = map stub_lowerChar s"

definition stub_gettext :: "string \<Rightarrow> string \<Rightarrow> string" where
  "stub_gettext locale key =
     (if key = ''restartCommand'' then (if locale = ''es-es'' then ''Reiniciar'' else ''Restart'')
      else if key = ''attachmentResponse'' then ''Sorry, I cannot read attachments.''
      else key)"

definition stub_continueDialog :: "Stub \<Rightarrow> string DialogTurnResult \<times> Stub" where
  "stub_continueDialog s =
     (case stub_stack s of
        [] \<Rightarrow> (\<lparr>status = Empty, result = None\<rparr>, s)
      | d # ds \<Rightarrow>
          (\<lparr>status = fst (stub_continues s), result = None\<rparr>,
           s\<lparr>stub_stack := (if fst (stub_continues s) = Waiting then d # ds else ds),
             stub_responded := (stub_responded s \<or> snd (stub_continues s))\<rparr>))"

definition stub_beginDialog :: "string \<Rightarrow> string option \<Rightarrow> Stub \<Rightarrow> string DialogTurnResult \<times> Stub" where
  "stub_beginDialog name options s =
     (\<lparr>status = Waiting, result = None\<rparr>,
      s\<lparr>stub_stack := name # stub_stack s, stub_responded := True,
        stub_begun := stub_begun s @ [(name, options)]\<rparr>)"

definition stub_recognizer :: "Stub \<Rightarrow> string RecognizerResult" where
  "stub_recognizer s = \<lparr>intents = stub_intents s, entities = ''entities''\<rparr>"

definition stubCollaborators :: "(Stub, string) Collaborators" where
  "stubCollaborators =
     \<lparr>trim = stub_trim,
      toLowerCase = stub_toLowerCase,
      gettext = stub_gettext,
      getLocale = ''en-us'',
      getLocales = [''en-us'', ''es-es''],
      luisRecognizers =
        (\<lambda>l. if l = ''en-us'' \<or> l = ''es-es''
             then Some stub_recognizer
             else None),
      isTurnInterrupted = (\<lambda>topIntent s. (stub_interrupts s, s)),
      userDataAccessor_get = stub_userData,
      userDataAccessor_set = (\<lambda>u s. s\<lparr>stub_userData := Some u\<rparr>),
      activeDialog = (\<lambda>s. case stub_stack s of [] \<Rightarrow> None | d # ds \<Rightarrow> Some d),
      responded = stub_responded,
      continueDialog = stub_continueDialog,
      beginDialog = stub_beginDialog,
      repromptDialog =
        (\<lambda>s. s\<lparr>stub_responded := (stub_responded s \<or> stub_reprompt_replies s)\<rparr>),
      cancelAllDialogs = (\<lambda>s. s\<lparr>stub_stack := []\<rparr>),
      sendActivity = (\<lambda>msg s. s\<lparr>stub_responded := True, stub_sent := stub_sent s @ [msg]\<rparr>)\<rparr>"

text \<open>A conversation with nothing on the stack, and a message with a given text.\<close>

definition stub_idle :: Stub where
  "stub_idle =
     \<lparr>stub_stack = [], stub_userData = Some \<lparr>userData_locale = Some ''en-us''\<rparr>,
      stub_responded = False, stub_sent = [], stub_begun = [],
      stub_intents = [(''Greeting'', 9 / 10), (''None'', 1 / 20)],
      stub_interrupts = False, stub_continues = (Waiting, True),
      stub_reprompt_replies = True\<rparr>"

definition turn_of :: "Stub \<Rightarrow> (Stub, string) Turn" where
  "turn_of s = \<lparr>dc = s, calls = []\<rparr>"

definition message :: "string \<Rightarrow> string list \<Rightarrow> string Activity" where
  "message txt atts =
     \<lparr>activity_type = Message, activity_text = Some txt,
      activity_attachments = (if atts = [] then None else Some atts),
      activity_locale = Some ''es-es'', activity_membersAdded = None,
      activity_recipient_id = ''bot''\<rparr>"

text \<open>
  Further conversations: a user with no stored record; a stored locale that is not
  supported; a recognizer that is unsure; an active QnA dialog that completes without a
  reply while the chitchat dialog reports an interruption, alone on the stack or above a
  Greeting dialog whose reprompt sends nothing; an active Greeting dialog with an
  interruption; and an active dialog that reports \<^verbatim>\<open>cancelled\<close>, silently or after a reply.
\<close>

definition stub_new_user :: Stub where
  "stub_new_user = stub_idle\<lparr>stub_userData := None\<rparr>"

definition stub_foreign_locale :: Stub where
  "stub_foreign_locale = stub_idle\<lparr>stub_userData := Some \<lparr>userData_locale = Some ''xx''\<rparr>\<rparr>"

definition stub_unsure :: Stub where
  "stub_unsure = stub_idle\<lparr>stub_intents := [(''Greeting'', 4 / 10), (''None'', 1 / 10)]\<rparr>"

definition stub_qna_completes :: Stub where
  "stub_qna_completes =
     stub_idle\<lparr>stub_stack := [''QnADialog''], stub_interrupts := True,
               stub_continues := (Complete, False)\<rparr>"

definition stub_qna_over_greeting :: Stub where
  "stub_qna_over_greeting =
     stub_idle\<lparr>stub_stack := [''QnADialog'', ''GreetingDialog''], stub_interrupts := True,
               stub_continues := (Complete, False), stub_reprompt_replies := False\<rparr>"

definition stub_interrupted :: Stub where
  "stub_interrupted = stub_idle\<lparr>stub_stack := [''GreetingDialog''], stub_interrupts := True\<rparr>"

definition stub_cancelled_silently :: Stub where
  "stub_cancelled_silently =
     stub_idle\<lparr>stub_stack := [''GreetingDialog''],
               stub_continues := (Other ''cancelled'', False)\<rparr>"

definition stub_cancelled_after_reply :: Stub where
  "stub_cancelled_after_reply =
     stub_idle\<lparr>stub_stack := [''GreetingDialog''],
               stub_continues := (Other ''cancelled'', True)\<rparr>"

section \<open>Properties of the router\<close>

subsection \<open>Auxiliary facts: the top intent, and the calls made by each step\<close>

lemma rawTopIntent_mem:
  "rawTopIntent xs = Some (name, score) \<Longrightarrow> (name, score) \<in> set xs"
  by (induction xs arbitrary: name score) (auto split: option.splits if_splits)

lemma continueQnA_calls:
  "continueQnA E w = (r, w') \<Longrightarrow> calls w' = calls w \<or> calls w' = calls w @ [ContinueDialog]"
  by (auto simp add: continueQnA_def dc_continueDialog_def split: if_splits prod.splits)

lemma luis_recognize_calls:
  "luis_recognize E locale w = Inr (results, w') \<Longrightarrow>
     calls w' = calls w @ [Recognize locale] \<and> dc w' = dc w"
  by (auto simp add: luis_recognize_def split: option.splits)

lemma interruptionStep_calls:
  "interruptionStep E topIntent turnResult w = (r, w') \<Longrightarrow>
     calls w' = calls w @ [IsTurnInterrupted topIntent]
     \<or> calls w' = calls w @ [IsTurnInterrupted topIntent, RepromptDialog]
     \<or> calls w' = calls w @ [IsTurnInterrupted topIntent, ContinueDialog]"
  by (auto simp add: interruptionStep_def chitchat_isTurnInterrupted_def dc_repromptDialog_def
      dc_continueDialog_def split: if_splits prod.splits option.splits)

lemma fallbackDispatch_calls:
  "fallbackDispatch E results topIntent turnResult w = (r, w') \<Longrightarrow>
     calls w' = calls w
     \<or> calls w' = calls w @ [BeginDialog GreetingDialog_name (Some (entities results))]
     \<or> calls w' = calls w @ [BeginDialog QnADialog_name None]
     \<or> calls w' = calls w @ [CancelAllDialogs]"
  by (auto simp add: fallbackDispatch_def dc_beginDialog_def dc_cancelAllDialogs_def
      split: if_splits prod.splits DialogTurnStatus.splits)

lemma stepsBeforeDispatch_Inr:
  "stepsBeforeDispatch E locale w = Inr (results, topIntent, turnResult, w') \<longleftrightarrow>
     (\<exists>r1 w1 w2.
        continueQnA E w = (r1, w1) \<and> luis_recognize E locale w1 = Inr (results, w2)
        \<and> topIntent = LuisRecognizer_topIntent results None LUIS_CONFIDENCE_THRESHOLD
        \<and> interruptionStep E topIntent r1 w2 = (turnResult, w'))"
  by (auto simp add: stepsBeforeDispatch_def Let_def split: sum.splits prod.splits)

lemma stepsBeforeDispatch_calls:
  assumes "stepsBeforeDispatch E locale w = Inr (results, topIntent, turnResult, w')"
  shows "\<exists>cs. calls w' = calls w @ cs \<and> IsTurnInterrupted topIntent \<in> set cs
           \<and> (\<forall>m. SendActivity m \<notin> set cs)"
proof -
  from assms obtain r1 w1 w2 where q: "continueQnA E w = (r1, w1)"
    and l: "luis_recognize E locale w1 = Inr (results, w2)"
    and i: "interruptionStep E topIntent r1 w2 = (turnResult, w')"
    unfolding stepsBeforeDispatch_Inr by blast
  from continueQnA_calls [OF q] luis_recognize_calls [OF l] interruptionStep_calls [OF i]
  show ?thesis
    by auto
qed

lemma routeMessage_no_send:
  assumes "\<not> (utterance_of E act = [] \<and> hasAttachments act)"
    and "routeMessage E locale act w = Inr (r, w')"
  shows "\<exists>cs. calls w' = calls w @ cs \<and> (\<forall>m. SendActivity m \<notin> set cs)"
proof (cases "utterance_of E act = toLowerCase E (gettext E locale ''restartCommand'')")
  case True
  with assms show ?thesis
    by (auto simp add: routeMessage_def Let_def userDataAccessor_set_call_def
        dc_cancelAllDialogs_def dc_beginDialog_def split: prod.splits)
next
  case False
  with assms obtain results topIntent turnResult w1 where
    s: "stepsBeforeDispatch E locale w = Inr (results, topIntent, turnResult, w1)"
    and f: "fallbackDispatch E results topIntent turnResult w1 = (r, w')"
    by (auto simp add: routeMessage_def Let_def split: sum.splits prod.splits)
  from stepsBeforeDispatch_calls [OF s] fallbackDispatch_calls [OF f]
  show ?thesis
    by auto
qed

lemma setUserLocale_twice:
  assumes "\<forall>u s. userDataAccessor_get E (userDataAccessor_set E u s) = Some u"
  shows "setUserLocale E newLocale (setUserLocale E newLocale w) = setUserLocale E newLocale w"
  using assms
  by (auto simp add: setUserLocale_def userDataAccessor_get_default_def
      userDataAccessor_set_call_def split: option.splits)

lemma setUserLocale_calls:
  "calls (setUserLocale E newLocale w) = calls w
   \<or> (\<exists>u. calls (setUserLocale E newLocale w) = calls w @ [UserDataSet u]
          \<and> userData_locale u = newLocale \<and> newLocale \<noteq> Some [] \<and> newLocale \<noteq> None
          \<and> getUserLocale E w \<noteq> newLocale)"
  by (auto simp add: setUserLocale_def userDataAccessor_get_default_def
      userDataAccessor_set_call_def getUserLocale_def new_UserData_def split: option.splits)

subsection \<open>The restart command\<close>



subsection \<open>The dispatch when no dialog took the turn\<close>

text \<open>
  C2. On a message turn that is neither an attachment-only turn nor the restart command,
  let the steps before the dispatch end with the results of the recognizer, the top
  intent, a turn result and a state. The results are what the recognizer of the locale
  gives. A dialog is begun if and only if nothing has been sent yet in that state and
  the status of that turn result is \<open>Empty\<close>. In that case, with the Greeting intent the
  router calls \<open>beginDialog\<close> of the dialog context for the Greeting dialog with the
  entities of the results as options, and with every other intent for the QnA dialog
  without options; the turn returns the result of that call. With the status
  \<open>Waiting\<close> or \<open>Complete\<close> the turn returns the turn result and the state as they
  are.
\<close>

theorem fallback_dispatch:
  assumes "\<not> (utterance_of E act = [] \<and> hasAttachments act)"
    and "utterance_of E act \<noteq> toLowerCase E (gettext E locale ''restartCommand'')"
    and "stepsBeforeDispatch E locale w = Inr (results, topIntent, turnResult, w1)"
  shows "routeMessage E locale act w = Inr (fallbackDispatch E results topIntent turnResult w1)
    \<and> (\<exists>recognizer. luisRecognizers E locale = Some recognizer
          \<and> results = recognizer (dc (snd (continueQnA E w))))
    \<and> ((\<exists>name options.
           calls (snd (fallbackDispatch E results topIntent turnResult w1)) =
             calls w1 @ [BeginDialog name options])
        \<longleftrightarrow> (\<not> responded E (dc w1) \<and> status turnResult = Empty))
    \<and> (\<not> responded E (dc w1) \<and> status turnResult = Empty \<and> topIntent = GREETING_INTENT \<longrightarrow>
          routeMessage E locale act w =
            Inr (case beginDialog E GreetingDialog_name (Some (entities results)) (dc w1) of
                   (r, s) \<Rightarrow>
                     (r, \<lparr>dc = s,
                          calls = calls w1 @
                            [BeginDialog GreetingDialog_name (Some (entities results))]\<rparr>)))
    \<and> (\<not> responded E (dc w1) \<and> status turnResult = Empty \<and> topIntent \<noteq> GREETING_INTENT \<longrightarrow>
          routeMessage E locale act w =
            Inr (case beginDialog E QnADialog_name None (dc w1) of
                   (r, s) \<Rightarrow>
                     (r, \<lparr>dc = s, calls = calls w1 @ [BeginDialog QnADialog_name None]\<rparr>)))
    \<and> (status turnResult = Waiting \<or> status turnResult = Complete \<longrightarrow>
          routeMessage E locale act w = Inr (turnResult, w1))"
proof -
  from assms have m: "routeMessage E locale act w =
      Inr (fallbackDispatch E results topIntent turnResult w1)"
    by (auto simp add: routeMessage_def Let_def)
  from assms(3) obtain r1 q1 w2 where q: "continueQnA E w = (r1, q1)"
    and l: "luis_recognize E locale q1 = Inr (results, w2)"
    unfolding stepsBeforeDispatch_Inr by blast
  from l have "\<exists>recognizer. luisRecognizers E locale = Some recognizer
      \<and> results = recognizer (dc q1)"
    by (auto simp add: luis_recognize_def split: option.splits)
  with q have p: "\<exists>recognizer. luisRecognizers E locale = Some recognizer
      \<and> results = recognizer (dc (snd (continueQnA E w)))"
    by simp
  have f: "(\<exists>name options.
           calls (snd (fallbackDispatch E results topIntent turnResult w1)) =
             calls w1 @ [BeginDialog name options])
        \<longleftrightarrow> (\<not> responded E (dc w1) \<and> status turnResult = Empty)"
    by (auto simp add: fallbackDispatch_def dc_beginDialog_def dc_cancelAllDialogs_def
        split: prod.splits DialogTurnStatus.splits)
  have g: "\<not> responded E (dc w1) \<and> status turnResult = Empty \<and> topIntent = GREETING_INTENT \<longrightarrow>
          routeMessage E locale act w =
            Inr (case beginDialog E GreetingDialog_name (Some (entities results)) (dc w1) of
                   (r, s) \<Rightarrow>
                     (r, \<lparr>dc = s,
                          calls = calls w1 @
                            [BeginDialog GreetingDialog_name (Some (entities results))]\<rparr>))"
    unfolding m by (simp add: fallbackDispatch_def dc_beginDialog_def)
  have n: "\<not> responded E (dc w1) \<and> status turnResult = Empty \<and> topIntent \<noteq> GREETING_INTENT \<longrightarrow>
          routeMessage E locale act w =
            Inr (case beginDialog E QnADialog_name None (dc w1) of
                   (r, s) \<Rightarrow>
                     (r, \<lparr>dc = s, calls = calls w1 @ [BeginDialog QnADialog_name None]\<rparr>))"
    unfolding m by (simp add: fallbackDispatch_def dc_beginDialog_def)
  have k: "status turnResult = Waiting \<or> status turnResult = Complete \<longrightarrow>
          routeMessage E locale act w = Inr (turnResult, w1)"
    unfolding m by (auto simp add: fallbackDispatch_def)
  from m p f g n k show ?thesis
    by blast
qed

theorem fallback_dispatch_witness:
  "\<not> (utterance_of stubCollaborators (message ''hello'' []) = []
        \<and> hasAttachments (message ''hello'' []))
   \<and> utterance_of stubCollaborators (message ''hello'' []) \<noteq>
       toLowerCase stubCollaborators (gettext stubCollaborators ''en-us'' ''restartCommand'')
   \<and> stepsBeforeDispatch stubCollaborators ''en-us'' (turn_of stub_idle) =
       Inr (stub_recognizer stub_idle, ''Greeting'', \<lparr>status = Empty, result = None\<rparr>,
            \<lparr>dc = stub_idle,
             calls = [Recognize ''en-us'', IsTurnInterrupted ''Greeting'', ContinueDialog]\<rparr>)
   \<and> routeMessage stubCollaborators ''en-us'' (message ''hello'' []) (turn_of stub_idle) =
       Inr (\<lparr>status = Waiting, result = None\<rparr>,
            \<lparr>dc = stub_idle\<lparr>stub_stack := [''GreetingDialog''], stub_responded := True,
                            stub_begun := [(''GreetingDialog'', Some ''entities'')]\<rparr>,
             calls = [Recognize ''en-us'', IsTurnInterrupted ''Greeting'', ContinueDialog,
                      BeginDialog ''GreetingDialog'' (Some ''entities'')]\<rparr>)
   \<and> stepsBeforeDispatch stubCollaborators ''en-us'' (turn_of stub_unsure) =
       Inr (stub_recognizer stub_unsure, ''None'', \<lparr>status = Empty, result = None\<rparr>,
            \<lparr>dc = stub_unsure,
             calls = [Recognize ''en-us'', IsTurnInterrupted ''None'', ContinueDialog]\<rparr>)
   \<and> routeMessage stubCollaborators ''en-us'' (message ''hello'' []) (turn_of stub_unsure) =
       Inr (\<lparr>status = Waiting, result = None\<rparr>,
            \<lparr>dc = stub_unsure\<lparr>stub_stack := [''QnADialog''], stub_responded := True,
                              stub_begun := [(''QnADialog'', None)]\<rparr>,
             calls = [Recognize ''en-us'', IsTurnInterrupted ''None'', ContinueDialog,
                      BeginDialog ''QnADialog'' None]\<rparr>)"
proof -
  have h1: "\<not> (utterance_of stubCollaborators (message ''hello'' []) = []
        \<and> hasAttachments (message ''hello'' []))"
    by code_simp
  have h2: "utterance_of stubCollaborators (message ''hello'' []) \<noteq>
       toLowerCase stubCollaborators (gettext stubCollaborators ''en-us'' ''restartCommand'')"
    by code_simp
  have h3: "stepsBeforeDispatch stubCollaborators ''en-us'' (turn_of stub_idle) =
       Inr (stub_recognizer stub_idle, ''Greeting'', \<lparr>status = Empty, result = None\<rparr>,
            \<lparr>dc = stub_idle,
             calls = [Recognize ''en-us'', IsTurnInterrupted ''Greeting'', ContinueDialog]\<rparr>)"
    by code_simp
  have h4: "\<not> responded stubCollaborators
                (dc \<lparr>dc = stub_idle,
                     calls = [Recognize ''en-us'', IsTurnInterrupted ''Greeting'',
                              ContinueDialog :: string Call]\<rparr>)
            \<and> status \<lparr>status = Empty, result = None :: string option\<rparr> = Empty
            \<and> ''Greeting'' = GREETING_INTENT"
    by code_simp
  note c = fallback_dispatch [OF h1 h2 h3]
  from c h4 have c3: "routeMessage stubCollaborators ''en-us'' (message ''hello'' [])
      (turn_of stub_idle) =
      Inr (case beginDialog stubCollaborators GreetingDialog_name
                  (Some (entities (stub_recognizer stub_idle)))
                  (dc \<lparr>dc = stub_idle,
                       calls = [Recognize ''en-us'', IsTurnInterrupted ''Greeting'',
                                ContinueDialog :: string Call]\<rparr>) of
             (r, s) \<Rightarrow>
               (r, \<lparr>dc = s,
                    calls = calls \<lparr>dc = stub_idle,
                                   calls = [Recognize ''en-us'', IsTurnInterrupted ''Greeting'',
                                            ContinueDialog :: string Call]\<rparr> @
                      [BeginDialog GreetingDialog_name
                         (Some (entities (stub_recognizer stub_idle)))]\<rparr>))"
    by blast
  have a: "routeMessage stubCollaborators ''en-us'' (message ''hello'' []) (turn_of stub_idle) =
       Inr (\<lparr>status = Waiting, result = None\<rparr>,
            \<lparr>dc = stub_idle\<lparr>stub_stack := [''GreetingDialog''], stub_responded := True,
                            stub_begun := [(''GreetingDialog'', Some ''entities'')]\<rparr>,
             calls = [Recognize ''en-us'', IsTurnInterrupted ''Greeting'', ContinueDialog,
                      BeginDialog ''GreetingDialog'' (Some ''entities'')]\<rparr>)"
    unfolding c3
    by code_simp
  have g3: "stepsBeforeDispatch stubCollaborators ''en-us'' (turn_of stub_unsure) =
       Inr (stub_recognizer stub_unsure, ''None'', \<lparr>status = Empty, result = None\<rparr>,
            \<lparr>dc = stub_unsure,
             calls = [Recognize ''en-us'', IsTurnInterrupted ''None'', ContinueDialog]\<rparr>)"
    by code_simp
  have g4: "\<not> responded stubCollaborators
                (dc \<lparr>dc = stub_unsure,
                     calls = [Recognize ''en-us'', IsTurnInterrupted ''None'',
                              ContinueDialog :: string Call]\<rparr>)
            \<and> status \<lparr>status = Empty, result = None :: string option\<rparr> = Empty
            \<and> ''None'' \<noteq> GREETING_INTENT"
    by code_simp
  note d = fallback_dispatch [OF h1 h2 g3]
  from d g4 have d3: "routeMessage stubCollaborators ''en-us'' (message ''hello'' [])
      (turn_of stub_unsure) =
      Inr (case beginDialog stubCollaborators QnADialog_name None
                  (dc \<lparr>dc = stub_unsure,
                       calls = [Recognize ''en-us'', IsTurnInterrupted ''None'',
                                ContinueDialog :: string Call]\<rparr>) of
             (r, s) \<Rightarrow>
               (r, \<lparr>dc = s,
                    calls = calls \<lparr>dc = stub_unsure,
                                   calls = [Recognize ''en-us'', IsTurnInterrupted ''None'',
                                            ContinueDialog :: string Call]\<rparr> @
                      [BeginDialog QnADialog_name None]\<rparr>))"
    by blast
  have b: "routeMessage stubCollaborators ''en-us'' (message ''hello'' []) (turn_of stub_unsure) =
       Inr (\<lparr>status = Waiting, result = None\<rparr>,
            \<lparr>dc = stub_unsure\<lparr>stub_stack := [''QnADialog''], stub_responded := True,
                              stub_begun := [(''QnADialog'', None)]\<rparr>,
             calls = [Recognize ''en-us'', IsTurnInterrupted ''None'', ContinueDialog,
                      BeginDialog ''QnADialog'' None]\<rparr>)"
    unfolding d3
    by code_simp
  from h1 h2 h3 a g3 b show ?thesis
    by blast
qed

subsection \<open>The locale of a turn\<close>

text \<open>
  C3, as stated, fails: a stored locale that is not empty is used as it is, supported or
  not. Here the stored locale is \<^verbatim>\<open>xx\<close>, the supported locales are \<^verbatim>\<open>en-us\<close> and \<^verbatim>\<open>es-es\<close>,
  and the message is routed with \<^verbatim>\<open>xx\<close>.
\<close>

theorem locale_resolution_counterexample:
  "fst (resolveLocale stubCollaborators (message ''hello'' []) (turn_of stub_foreign_locale)) = ''xx''
   \<and> ''xx'' \<notin> set (getLocales stubCollaborators)
   \<and> onContinueDialog stubCollaborators (message ''hello'' []) (turn_of stub_foreign_locale) =
       routeMessage stubCollaborators ''xx'' (message ''hello'' []) (turn_of stub_foreign_locale)"
  by code_simp

text \<open>
  C3, amended. Let \<open>resolveLocale\<close> give the locale and the state of a turn. A stored
  locale that is not empty is that locale, unchanged and unchecked, and nothing is
  written. With no stored locale, or an empty one, the locale is the hint of the
  activity if the hint is present, not empty and supported, and the default of the
  localizer otherwise, and it is handed to \<open>setUserLocale\<close>. So the locale is
  supported whenever the default is and any non-empty stored locale is.
  \<open>onContinueDialog\<close> resolves the locale once and dispatches with it. The resolution
  calls the accessor's \<open>set\<close> at most once, and only with a non-empty locale that
  differs from the stored one; and when the accessor returns what was set, setting the
  same locale a second time changes nothing.
\<close>

theorem locale_resolution:
  assumes "resolveLocale E act w = (locale, w')"
  shows "(\<forall>l. getUserLocale E w = Some l \<and> l \<noteq> [] \<longrightarrow> locale = l \<and> w' = w)
    \<and> (getUserLocale E w = None \<or> getUserLocale E w = Some [] \<longrightarrow>
          locale = (let hinted = (case activity_locale act of
                                    None \<Rightarrow> getLocale E
                                  | Some l \<Rightarrow> if l = [] then getLocale E else l)
                    in if hinted \<in> set (getLocales E) then hinted else getLocale E)
          \<and> w' = setUserLocale E (Some locale) w)
    \<and> (getLocale E \<in> set (getLocales E)
          \<and> (\<forall>l. getUserLocale E w = Some l \<and> l \<noteq> [] \<longrightarrow> l \<in> set (getLocales E))
        \<longrightarrow> locale \<in> set (getLocales E))
    \<and> onContinueDialog E act w =
        (case activity_type act of
           Message \<Rightarrow> routeMessage E locale act w'
         | ConversationUpdate \<Rightarrow> Inr (welcomeUser E act w')
         | OtherActivity x \<Rightarrow> Inr (DIALOG_TURN_RESULT_DEFAULT, w'))
    \<and> (calls w' = calls w
        \<or> (\<exists>u. calls w' = calls w @ [UserDataSet u] \<and> userData_locale u = Some locale
               \<and> locale \<noteq> [] \<and> getUserLocale E w \<noteq> Some locale))
    \<and> ((\<forall>u s. userDataAccessor_get E (userDataAccessor_set E u s) = Some u) \<longrightarrow>
          setUserLocale E (Some locale) (setUserLocale E (Some locale) w) =
            setUserLocale E (Some locale) w)"
proof (intro conjI)
  from assms show "\<forall>l. getUserLocale E w = Some l \<and> l \<noteq> [] \<longrightarrow> locale = l \<and> w' = w"
    by (auto simp add: resolveLocale_def Let_def)
  from assms show "getUserLocale E w = None \<or> getUserLocale E w = Some [] \<longrightarrow>
          locale = (let hinted = (case activity_locale act of
                                    None \<Rightarrow> getLocale E
                                  | Some l \<Rightarrow> if l = [] then getLocale E else l)
                    in if hinted \<in> set (getLocales E) then hinted else getLocale E)
          \<and> w' = setUserLocale E (Some locale) w"
    by (auto simp add: resolveLocale_def Let_def)
  from assms show "getLocale E \<in> set (getLocales E)
          \<and> (\<forall>l. getUserLocale E w = Some l \<and> l \<noteq> [] \<longrightarrow> l \<in> set (getLocales E))
        \<longrightarrow> locale \<in> set (getLocales E)"
    by (auto simp add: resolveLocale_def Let_def split: option.splits if_splits)
  from assms show "onContinueDialog E act w =
        (case activity_type act of
           Message \<Rightarrow> routeMessage E locale act w'
         | ConversationUpdate \<Rightarrow> Inr (welcomeUser E act w')
         | OtherActivity x \<Rightarrow> Inr (DIALOG_TURN_RESULT_DEFAULT, w'))"
    by (simp add: onContinueDialog_def)
  show "calls w' = calls w
        \<or> (\<exists>u. calls w' = calls w @ [UserDataSet u] \<and> userData_locale u = Some locale
               \<and> locale \<noteq> [] \<and> getUserLocale E w \<noteq> Some locale)"
  proof (cases "\<exists>l. getUserLocale E w = Some l \<and> l \<noteq> []")
    case True
    with assms show ?thesis
      by (auto simp add: resolveLocale_def Let_def)
  next
    case False
    with assms have "w' = setUserLocale E (Some locale) w"
      by (auto simp add: resolveLocale_def Let_def split: option.splits)
    with setUserLocale_calls [of E "Some locale" w] show ?thesis
      by auto
  qed
  show "(\<forall>u s. userDataAccessor_get E (userDataAccessor_set E u s) = Some u) \<longrightarrow>
          setUserLocale E (Some locale) (setUserLocale E (Some locale) w) =
            setUserLocale E (Some locale) w"
    by (simp add: setUserLocale_twice)
qed

theorem locale_resolution_witness:
  "resolveLocale stubCollaborators (message ''hello'' []) (turn_of stub_new_user) =
     (''es-es'',
      \<lparr>dc = stub_new_user\<lparr>stub_userData := Some \<lparr>userData_locale = Some ''es-es''\<rparr>\<rparr>,
       calls = [UserDataSet \<lparr>userData_locale = Some ''es-es''\<rparr>]\<rparr>)
   \<and> getUserLocale stubCollaborators (turn_of stub_new_user) = None
   \<and> getLocale stubCollaborators \<in> set (getLocales stubCollaborators)
   \<and> ''es-es'' \<in> set (getLocales stubCollaborators)
   \<and> setUserLocale stubCollaborators (Some ''es-es'')
         (setUserLocale stubCollaborators (Some ''es-es'') (turn_of stub_new_user)) =
       setUserLocale stubCollaborators (Some ''es-es'') (turn_of stub_new_user)
   \<and> resolveLocale stubCollaborators (message ''hello'' []) (turn_of stub_idle) =
       (''en-us'', turn_of stub_idle)
   \<and> getUserLocale stubCollaborators (turn_of stub_idle) = Some ''en-us''"
proof -
  have h: "resolveLocale stubCollaborators (message ''hello'' []) (turn_of stub_new_user) =
     (''es-es'',
      \<lparr>dc = stub_new_user\<lparr>stub_userData := Some \<lparr>userData_locale = Some ''es-es''\<rparr>\<rparr>,
       calls = [UserDataSet \<lparr>userData_locale = Some ''es-es''\<rparr>]\<rparr>)"
    by code_simp
  have n: "getUserLocale stubCollaborators (turn_of stub_new_user) = None"
    by code_simp
  have d: "getLocale stubCollaborators \<in> set (getLocales stubCollaborators)"
    by code_simp
  have law: "\<forall>u s. userDataAccessor_get stubCollaborators
                      (userDataAccessor_set stubCollaborators u s) = Some u"
    by (simp add: stubCollaborators_def)
  note c = locale_resolution [OF h]
  from c have "getLocale stubCollaborators \<in> set (getLocales stubCollaborators)
      \<and> (\<forall>l. getUserLocale stubCollaborators (turn_of stub_new_user) = Some l \<and> l \<noteq> []
             \<longrightarrow> l \<in> set (getLocales stubCollaborators))
      \<longrightarrow> ''es-es'' \<in> set (getLocales stubCollaborators)"
    by blast
  with n d have s: "''es-es'' \<in> set (getLocales stubCollaborators)"
    by simp
  from c law have t: "setUserLocale stubCollaborators (Some ''es-es'')
         (setUserLocale stubCollaborators (Some ''es-es'') (turn_of stub_new_user)) =
       setUserLocale stubCollaborators (Some ''es-es'') (turn_of stub_new_user)"
    by blast
  obtain l w' where r: "resolveLocale stubCollaborators (message ''hello'' []) (turn_of stub_idle) =
       (l, w')"
    by (cases "resolveLocale stubCollaborators (message ''hello'' []) (turn_of stub_idle)")
  have g: "getUserLocale stubCollaborators (turn_of stub_idle) = Some ''en-us'' \<and> ''en-us'' \<noteq> []"
    by code_simp
  from locale_resolution [OF r] g have "l = ''en-us'' \<and> w' = turn_of stub_idle"
    by blast
  with r have "resolveLocale stubCollaborators (message ''hello'' []) (turn_of stub_idle) =
       (''en-us'', turn_of stub_idle)"
    by simp
  with h n d s t g show ?thesis
    by blast
qed

subsection \<open>The confidence threshold\<close>

text \<open>
  C4. When every intent of the recognizer's results has a score below the threshold
  0.7, the top intent is None, whatever the intent of highest score is. On such a turn
  the interruption test is called with None, and the dispatch does not begin the
  Greeting dialog.
\<close>

theorem low_confidence_top_intent:
  assumes "\<forall>(name, score) \<in> set (intents results). score < LUIS_CONFIDENCE_THRESHOLD"
  shows "LuisRecognizer_topIntent results None LUIS_CONFIDENCE_THRESHOLD = NONE_INTENT
    \<and> (\<forall>locale w topIntent turnResult w'.
          stepsBeforeDispatch E locale w = Inr (results, topIntent, turnResult, w') \<longrightarrow>
          topIntent = NONE_INTENT \<and> IsTurnInterrupted NONE_INTENT \<in> set (calls w')
          \<and> (\<forall>options. calls (snd (fallbackDispatch E results topIntent turnResult w')) \<noteq>
                 calls w' @ [BeginDialog GreetingDialog_name options]))"
proof -
  have n: "LuisRecognizer_topIntent results None LUIS_CONFIDENCE_THRESHOLD = NONE_INTENT"
  proof (cases "rawTopIntent (intents results)")
    case None
    then show ?thesis
      by (simp add: LuisRecognizer_topIntent_def NONE_INTENT_def)
  next
    case (Some top)
    obtain name score where top: "top = (name, score)"
      by (cases top)
    with Some have "(name, score) \<in> set (intents results)"
      by (simp add: rawTopIntent_mem)
    with assms have "score < LUIS_CONFIDENCE_THRESHOLD"
      by auto
    with Some top show ?thesis
      by (simp add: LuisRecognizer_topIntent_def NONE_INTENT_def)
  qed
  have "topIntent = NONE_INTENT \<and> IsTurnInterrupted NONE_INTENT \<in> set (calls w')
        \<and> (\<forall>options. calls (snd (fallbackDispatch E results topIntent turnResult w')) \<noteq>
                 calls w' @ [BeginDialog GreetingDialog_name options])"
    if s: "stepsBeforeDispatch E loc w = Inr (results, topIntent, turnResult, w')"
    for loc w topIntent turnResult w'
  proof -
    from s n have t: "topIntent = NONE_INTENT"
      by (auto simp add: stepsBeforeDispatch_Inr)
    from stepsBeforeDispatch_calls [OF s] t
    have c: "IsTurnInterrupted NONE_INTENT \<in> set (calls w')"
      by auto
    have "calls (snd (fallbackDispatch E results topIntent turnResult w')) \<noteq>
                 calls w' @ [BeginDialog GreetingDialog_name options]" for options
      using t
      by (auto simp add: fallbackDispatch_def dc_beginDialog_def dc_cancelAllDialogs_def
          NONE_INTENT_def GREETING_INTENT_def GreetingDialog_name_def QnADialog_name_def
          split: prod.splits DialogTurnStatus.splits)
    with t c show ?thesis
      by blast
  qed
  with n show ?thesis
    by blast
qed

theorem low_confidence_top_intent_witness:
  "list_all (\<lambda>(name, score). score < LUIS_CONFIDENCE_THRESHOLD)
     (intents (stub_recognizer stub_unsure))
   \<and> LuisRecognizer_topIntent (stub_recognizer stub_unsure) None LUIS_CONFIDENCE_THRESHOLD = ''None''
   \<and> stepsBeforeDispatch stubCollaborators ''en-us'' (turn_of stub_unsure) =
       Inr (stub_recognizer stub_unsure, ''None'', \<lparr>status = Empty, result = None\<rparr>,
            \<lparr>dc = stub_unsure,
             calls = [Recognize ''en-us'', IsTurnInterrupted ''None'', ContinueDialog]\<rparr>)
   \<and> IsTurnInterrupted NONE_INTENT \<in>
        set [Recognize ''en-us'', IsTurnInterrupted ''None'', ContinueDialog :: string Call]"
proof -
  have h: "\<forall>(name, score) \<in> set (intents (stub_recognizer stub_unsure)).
      score < LUIS_CONFIDENCE_THRESHOLD"
    by (simp add: stub_recognizer_def stub_unsure_def LUIS_CONFIDENCE_THRESHOLD_def)
  have s: "stepsBeforeDispatch stubCollaborators ''en-us'' (turn_of stub_unsure) =
       Inr (stub_recognizer stub_unsure, ''None'', \<lparr>status = Empty, result = None\<rparr>,
            \<lparr>dc = stub_unsure,
             calls = [Recognize ''en-us'', IsTurnInterrupted ''None'', ContinueDialog]\<rparr>)"
    by code_simp
  note c = low_confidence_top_intent [OF h, of stubCollaborators]
  from c have t: "LuisRecognizer_topIntent (stub_recognizer stub_unsure) None
      LUIS_CONFIDENCE_THRESHOLD = ''None''"
    by (simp add: NONE_INTENT_def)
  from c s have "IsTurnInterrupted NONE_INTENT \<in>
        set (calls \<lparr>dc = stub_unsure,
             calls = [Recognize ''en-us'', IsTurnInterrupted ''None'', ContinueDialog :: string Call]\<rparr>)"
    by blast
  then have "IsTurnInterrupted NONE_INTENT \<in>
        set [Recognize ''en-us'', IsTurnInterrupted ''None'', ContinueDialog :: string Call]"
    by simp
  moreover have "list_all (\<lambda>(name, score). score < LUIS_CONFIDENCE_THRESHOLD)
     (intents (stub_recognizer stub_unsure))"
    using h by (simp add: list_all_iff)
  ultimately show ?thesis
    using s t by blast
qed

subsection \<open>An active QnA dialog\<close>

text \<open>
  C5. On a message turn that is neither an attachment-only turn nor the restart command,
  with the QnA dialog active and a recognizer for the locale: the dialog is continued
  first, and a status \<open>Complete\<close> of that continuation becomes \<open>Empty\<close>; the
  recognizer is called next, on the state the continuation left, and the interruption
  step receives the turn result with the replaced status. When the continuation
  reports \<open>Complete\<close>, the turn is an interruption, no dialog is active after the test
  and nothing has been sent, the dispatch finds the status \<open>Empty\<close> and begins a
  dialog.
\<close>

theorem qna_continued_first:
  assumes "\<not> (utterance_of E act = [] \<and> hasAttachments act)"
    and "utterance_of E act \<noteq> toLowerCase E (gettext E locale ''restartCommand'')"
    and "activeDialog E (dc w) = Some QnADialog_name"
    and "continueDialog E (dc w) = (r, s)"
    and "luisRecognizers E locale = Some recognizer"
  shows "continueQnA E w =
           ((if status r = Complete then r\<lparr>status := Empty\<rparr> else r),
            \<lparr>dc = s, calls = calls w @ [ContinueDialog]\<rparr>)
    \<and> routeMessage E locale act w =
        (let turnResult = (if status r = Complete then r\<lparr>status := Empty\<rparr> else r);
             results = recognizer s;
             topIntent = LuisRecognizer_topIntent results None LUIS_CONFIDENCE_THRESHOLD
         in case interruptionStep E topIntent turnResult
                   \<lparr>dc = s, calls = calls w @ [ContinueDialog, Recognize locale]\<rparr> of
              (turnResult', w') \<Rightarrow> Inr (fallbackDispatch E results topIntent turnResult' w'))
    \<and> (\<forall>s'. status r = Complete
          \<and> isTurnInterrupted E
               (LuisRecognizer_topIntent (recognizer s) None LUIS_CONFIDENCE_THRESHOLD) s = (True, s')
          \<and> activeDialog E s' = None \<and> \<not> responded E s' \<longrightarrow>
          routeMessage E locale act w =
            (let topIntent = LuisRecognizer_topIntent (recognizer s) None LUIS_CONFIDENCE_THRESHOLD;
                 w' = \<lparr>dc = s', calls = calls w @ [ContinueDialog, Recognize locale,
                                                    IsTurnInterrupted topIntent]\<rparr>
             in Inr (if topIntent = GREETING_INTENT
                     then dc_beginDialog E GreetingDialog_name (Some (entities (recognizer s))) w'
                     else dc_beginDialog E QnADialog_name None w')))"
proof -
  from assms(3,4) have q: "continueQnA E w =
           ((if status r = Complete then r\<lparr>status := Empty\<rparr> else r),
            \<lparr>dc = s, calls = calls w @ [ContinueDialog]\<rparr>)"
    by (simp add: continueQnA_def dc_continueDialog_def)
  from assms(1,2) have "routeMessage E locale act w =
      (case stepsBeforeDispatch E locale w of
         Inl e \<Rightarrow> Inl e
       | Inr (results, topIntent, turnResult, w') \<Rightarrow>
           Inr (fallbackDispatch E results topIntent turnResult w'))"
    by (auto simp add: routeMessage_def Let_def)
  with q assms(5) have m: "routeMessage E locale act w =
        (let turnResult = (if status r = Complete then r\<lparr>status := Empty\<rparr> else r);
             results = recognizer s;
             topIntent = LuisRecognizer_topIntent results None LUIS_CONFIDENCE_THRESHOLD
         in case interruptionStep E topIntent turnResult
                   \<lparr>dc = s, calls = calls w @ [ContinueDialog, Recognize locale]\<rparr> of
              (turnResult', w') \<Rightarrow> Inr (fallbackDispatch E results topIntent turnResult' w'))"
    by (simp add: stepsBeforeDispatch_def luis_recognize_def Let_def split: prod.splits)
  have "\<forall>s'. status r = Complete
          \<and> isTurnInterrupted E
               (LuisRecognizer_topIntent (recognizer s) None LUIS_CONFIDENCE_THRESHOLD) s = (True, s')
          \<and> activeDialog E s' = None \<and> \<not> responded E s' \<longrightarrow>
          routeMessage E locale act w =
            (let topIntent = LuisRecognizer_topIntent (recognizer s) None LUIS_CONFIDENCE_THRESHOLD;
                 w' = \<lparr>dc = s', calls = calls w @ [ContinueDialog, Recognize locale,
                                                    IsTurnInterrupted topIntent]\<rparr>
             in Inr (if topIntent = GREETING_INTENT
                     then dc_beginDialog E GreetingDialog_name (Some (entities (recognizer s))) w'
                     else dc_beginDialog E QnADialog_name None w'))"
    unfolding m
    by (simp add: Let_def interruptionStep_def chitchat_isTurnInterrupted_def
        fallbackDispatch_def)
  with q m show ?thesis
    by blast
qed

theorem qna_continued_first_witness:
  "\<not> (utterance_of stubCollaborators (message ''help'' []) = [] \<and> hasAttachments (message ''help'' []))
   \<and> utterance_of stubCollaborators (message ''help'' []) \<noteq>
       toLowerCase stubCollaborators (gettext stubCollaborators ''en-us'' ''restartCommand'')
   \<and> activeDialog stubCollaborators (dc (turn_of stub_qna_completes)) = Some QnADialog_name
   \<and> continueDialog stubCollaborators (dc (turn_of stub_qna_completes)) =
       (\<lparr>status = Complete, result = None\<rparr>, stub_qna_completes\<lparr>stub_stack := []\<rparr>)
   \<and> luisRecognizers stubCollaborators ''en-us'' = Some stub_recognizer
   \<and> continueQnA stubCollaborators (turn_of stub_qna_completes) =
       (\<lparr>status = Empty, result = None\<rparr>,
        \<lparr>dc = stub_qna_completes\<lparr>stub_stack := []\<rparr>, calls = [ContinueDialog]\<rparr>)
   \<and> routeMessage stubCollaborators ''en-us'' (message ''help'' []) (turn_of stub_qna_completes) =
       Inr (\<lparr>status = Waiting, result = None\<rparr>,
            \<lparr>dc = stub_qna_completes\<lparr>stub_stack := [''GreetingDialog''], stub_responded := True,
                                     stub_begun := [(''GreetingDialog'', Some ''entities'')]\<rparr>,
             calls = [ContinueDialog, Recognize ''en-us'', IsTurnInterrupted ''Greeting'',
                      BeginDialog ''GreetingDialog'' (Some ''entities'')]\<rparr>)"
proof -
  have h1: "\<not> (utterance_of stubCollaborators (message ''help'' []) = [] \<and> hasAttachments (message ''help'' []))"
    by code_simp
  have h2: "utterance_of stubCollaborators (message ''help'' []) \<noteq>
       toLowerCase stubCollaborators (gettext stubCollaborators ''en-us'' ''restartCommand'')"
    by code_simp
  have h3: "activeDialog stubCollaborators (dc (turn_of stub_qna_completes)) = Some QnADialog_name"
    by code_simp
  have h4: "continueDialog stubCollaborators (dc (turn_of stub_qna_completes)) =
       (\<lparr>status = Complete, result = None\<rparr>, stub_qna_completes\<lparr>stub_stack := []\<rparr>)"
    by code_simp
  have h5: "luisRecognizers stubCollaborators ''en-us'' = Some stub_recognizer"
    by (simp add: stubCollaborators_def)
  note c = qna_continued_first [OF h1 h2 h3 h4 h5]
  have q: "continueQnA stubCollaborators (turn_of stub_qna_completes) =
       (\<lparr>status = Empty, result = None\<rparr>,
        \<lparr>dc = stub_qna_completes\<lparr>stub_stack := []\<rparr>, calls = [ContinueDialog]\<rparr>)"
    unfolding c [THEN conjunct1]
    by code_simp
  have k: "status \<lparr>status = Complete, result = None :: string option\<rparr> = Complete
     \<and> isTurnInterrupted stubCollaborators
          (LuisRecognizer_topIntent (stub_recognizer (stub_qna_completes\<lparr>stub_stack := []\<rparr>))
             None LUIS_CONFIDENCE_THRESHOLD)
          (stub_qna_completes\<lparr>stub_stack := []\<rparr>) =
        (True, stub_qna_completes\<lparr>stub_stack := []\<rparr>)
     \<and> activeDialog stubCollaborators (stub_qna_completes\<lparr>stub_stack := []\<rparr>) = None
     \<and> \<not> responded stubCollaborators (stub_qna_completes\<lparr>stub_stack := []\<rparr>)"
    by code_simp
  from c k have t: "routeMessage stubCollaborators ''en-us'' (message ''help'' [])
       (turn_of stub_qna_completes) =
       (let topIntent = LuisRecognizer_topIntent
                          (stub_recognizer (stub_qna_completes\<lparr>stub_stack := []\<rparr>))
                          None LUIS_CONFIDENCE_THRESHOLD;
            w' = \<lparr>dc = stub_qna_completes\<lparr>stub_stack := []\<rparr>,
                  calls = calls (turn_of stub_qna_completes) @
                    [ContinueDialog, Recognize ''en-us'', IsTurnInterrupted topIntent]\<rparr>
        in Inr (if topIntent = GREETING_INTENT
                then dc_beginDialog stubCollaborators GreetingDialog_name
                       (Some (entities (stub_recognizer (stub_qna_completes\<lparr>stub_stack := []\<rparr>))))
                       w'
                else dc_beginDialog stubCollaborators QnADialog_name None w'))"
    by blast
  have r: "routeMessage stubCollaborators ''en-us'' (message ''help'' [])
       (turn_of stub_qna_completes) =
       Inr (\<lparr>status = Waiting, result = None\<rparr>,
            \<lparr>dc = stub_qna_completes\<lparr>stub_stack := [''GreetingDialog''], stub_responded := True,
                                     stub_begun := [(''GreetingDialog'', Some ''entities'')]\<rparr>,
             calls = [ContinueDialog, Recognize ''en-us'', IsTurnInterrupted ''Greeting'',
                      BeginDialog ''GreetingDialog'' (Some ''entities'')]\<rparr>)"
    unfolding t
    by code_simp
  from h1 h2 h3 h4 h5 q r show ?thesis
    by blast
qed

subsection \<open>Interruptions\<close>

text \<open>
  C6, as stated, fails: after the reprompt the dispatch still runs, and it begins a dialog
  when the turn result it finds has the status \<open>Empty\<close> and nothing has been sent.
  Here the QnA dialog, above a Greeting dialog, completes without a reply; the turn is an
  interruption; the Greeting dialog is reprompted and sends nothing; and the router
  begins a second Greeting dialog.
\<close>

theorem interruption_step_counterexample:
  "activeDialog stubCollaborators (stub_qna_over_greeting\<lparr>stub_stack := [''GreetingDialog'']\<rparr>) =
     Some ''GreetingDialog''
   \<and> ''GreetingDialog'' \<noteq> CancelDialog_name
   \<and> isTurnInterrupted stubCollaborators ''Greeting''
         (stub_qna_over_greeting\<lparr>stub_stack := [''GreetingDialog'']\<rparr>) =
       (True, stub_qna_over_greeting\<lparr>stub_stack := [''GreetingDialog'']\<rparr>)
   \<and> routeMessage stubCollaborators ''en-us'' (message ''help'' [])
         (turn_of stub_qna_over_greeting) =
       Inr (\<lparr>status = Waiting, result = None\<rparr>,
            \<lparr>dc = stub_qna_over_greeting
                   \<lparr>stub_stack := [''GreetingDialog'', ''GreetingDialog''],
                    stub_responded := True,
                    stub_begun := [(''GreetingDialog'', Some ''entities'')]\<rparr>,
             calls = [ContinueDialog, Recognize ''en-us'', IsTurnInterrupted ''Greeting'',
                      RepromptDialog, BeginDialog ''GreetingDialog'' (Some ''entities'')]\<rparr>)"
  by code_simp

text \<open>
  C6, amended. When the interruption test answers yes: with an active dialog other than
  the Cancel dialog, the step calls \<open>repromptDialog\<close> and nothing else, and keeps the
  turn result; with the Cancel dialog active, it continues that dialog and takes its
  result; with no active dialog it does nothing. The active dialog is read after the
  test. After the reprompt the dispatch begins no dialog if the turn result kept has a
  status other than \<open>Empty\<close> or if something has been sent; it begins one if the
  status is \<open>Empty\<close> and nothing has been sent. The status is \<open>Empty\<close> only when
  the turn started in the QnA dialog: on a turn that did not, the recognizer, the test
  and the reprompt are the only calls of the whole turn, and the default turn result is
  returned.
\<close>

theorem interruption_step:
  assumes "isTurnInterrupted E topIntent (dc w) = (True, s)"
  shows "(\<forall>d. activeDialog E s = Some d \<and> d \<noteq> CancelDialog_name \<longrightarrow>
            interruptionStep E topIntent turnResult w =
              (turnResult,
               \<lparr>dc = repromptDialog E s,
                calls = calls w @ [IsTurnInterrupted topIntent, RepromptDialog]\<rparr>))
    \<and> (activeDialog E s = Some CancelDialog_name \<longrightarrow>
          interruptionStep E topIntent turnResult w =
            (case continueDialog E s of
               (r, s') \<Rightarrow>
                 (r, \<lparr>dc = s',
                      calls = calls w @ [IsTurnInterrupted topIntent, ContinueDialog]\<rparr>)))
    \<and> (activeDialog E s = None \<longrightarrow>
          interruptionStep E topIntent turnResult w =
            (turnResult, \<lparr>dc = s, calls = calls w @ [IsTurnInterrupted topIntent]\<rparr>))
    \<and> (status turnResult \<noteq> Empty \<or> responded E (repromptDialog E s) \<longrightarrow>
          calls (snd (fallbackDispatch E results topIntent turnResult
                        \<lparr>dc = repromptDialog E s,
                         calls = calls w @ [IsTurnInterrupted topIntent, RepromptDialog]\<rparr>)) =
            calls w @ [IsTurnInterrupted topIntent, RepromptDialog]
          \<or> calls (snd (fallbackDispatch E results topIntent turnResult
                          \<lparr>dc = repromptDialog E s,
                           calls = calls w @ [IsTurnInterrupted topIntent, RepromptDialog]\<rparr>)) =
              calls w @ [IsTurnInterrupted topIntent, RepromptDialog, CancelAllDialogs])
    \<and> (status turnResult = Empty \<and> \<not> responded E (repromptDialog E s) \<longrightarrow>
          fallbackDispatch E results topIntent turnResult
            \<lparr>dc = repromptDialog E s,
             calls = calls w @ [IsTurnInterrupted topIntent, RepromptDialog]\<rparr> =
            (case beginDialog E
                    (if topIntent = GREETING_INTENT then GreetingDialog_name else QnADialog_name)
                    (if topIntent = GREETING_INTENT then Some (entities results) else None)
                    (repromptDialog E s) of
               (r, s') \<Rightarrow>
                 (r, \<lparr>dc = s',
                      calls = calls w @
                        [IsTurnInterrupted topIntent, RepromptDialog,
                         BeginDialog
                           (if topIntent = GREETING_INTENT
                            then GreetingDialog_name else QnADialog_name)
                           (if topIntent = GREETING_INTENT
                            then Some (entities results) else None)]\<rparr>)))
    \<and> (\<forall>d.
          \<not> (utterance_of E act = [] \<and> hasAttachments act)
          \<and> utterance_of E act \<noteq> toLowerCase E (gettext E locale ''restartCommand'')
          \<and> activeDialog E (dc w) \<noteq> Some QnADialog_name
          \<and> luisRecognizers E locale = Some recognizer
          \<and> topIntent = LuisRecognizer_topIntent (recognizer (dc w)) None LUIS_CONFIDENCE_THRESHOLD
          \<and> activeDialog E s = Some d \<and> d \<noteq> CancelDialog_name \<longrightarrow>
          routeMessage E locale act w =
            Inr (DIALOG_TURN_RESULT_DEFAULT,
                 \<lparr>dc = repromptDialog E s,
                  calls = calls w @ [Recognize locale, IsTurnInterrupted topIntent,
                                     RepromptDialog]\<rparr>))"
proof -
  from assms have a: "\<forall>d. activeDialog E s = Some d \<and> d \<noteq> CancelDialog_name \<longrightarrow>
            interruptionStep E topIntent turnResult w =
              (turnResult,
               \<lparr>dc = repromptDialog E s,
                calls = calls w @ [IsTurnInterrupted topIntent, RepromptDialog]\<rparr>)"
    by (simp add: interruptionStep_def chitchat_isTurnInterrupted_def dc_repromptDialog_def)
  from assms have b: "activeDialog E s = Some CancelDialog_name \<longrightarrow>
          interruptionStep E topIntent turnResult w =
            (case continueDialog E s of
               (r, s') \<Rightarrow>
                 (r, \<lparr>dc = s',
                      calls = calls w @ [IsTurnInterrupted topIntent, ContinueDialog]\<rparr>))"
    by (simp add: interruptionStep_def chitchat_isTurnInterrupted_def dc_continueDialog_def)
  from assms have c: "activeDialog E s = None \<longrightarrow>
          interruptionStep E topIntent turnResult w =
            (turnResult, \<lparr>dc = s, calls = calls w @ [IsTurnInterrupted topIntent]\<rparr>)"
    by (simp add: interruptionStep_def chitchat_isTurnInterrupted_def)
  have d: "status turnResult \<noteq> Empty \<or> responded E (repromptDialog E s) \<longrightarrow>
          calls (snd (fallbackDispatch E results topIntent turnResult
                        \<lparr>dc = repromptDialog E s,
                         calls = calls w @ [IsTurnInterrupted topIntent, RepromptDialog]\<rparr>)) =
            calls w @ [IsTurnInterrupted topIntent, RepromptDialog]
          \<or> calls (snd (fallbackDispatch E results topIntent turnResult
                          \<lparr>dc = repromptDialog E s,
                           calls = calls w @ [IsTurnInterrupted topIntent, RepromptDialog]\<rparr>)) =
              calls w @ [IsTurnInterrupted topIntent, RepromptDialog, CancelAllDialogs]"
    by (auto simp add: fallbackDispatch_def dc_cancelAllDialogs_def
        split: DialogTurnStatus.splits)
  have e: "status turnResult = Empty \<and> \<not> responded E (repromptDialog E s) \<longrightarrow>
          fallbackDispatch E results topIntent turnResult
            \<lparr>dc = repromptDialog E s,
             calls = calls w @ [IsTurnInterrupted topIntent, RepromptDialog]\<rparr> =
            (case beginDialog E
                    (if topIntent = GREETING_INTENT then GreetingDialog_name else QnADialog_name)
                    (if topIntent = GREETING_INTENT then Some (entities results) else None)
                    (repromptDialog E s) of
               (r, s') \<Rightarrow>
                 (r, \<lparr>dc = s',
                      calls = calls w @
                        [IsTurnInterrupted topIntent, RepromptDialog,
                         BeginDialog
                           (if topIntent = GREETING_INTENT
                            then GreetingDialog_name else QnADialog_name)
                           (if topIntent = GREETING_INTENT
                            then Some (entities results) else None)]\<rparr>))"
    by (simp add: fallbackDispatch_def dc_beginDialog_def)
  from assms have f: "\<forall>d.
          \<not> (utterance_of E act = [] \<and> hasAttachments act)
          \<and> utterance_of E act \<noteq> toLowerCase E (gettext E locale ''restartCommand'')
          \<and> activeDialog E (dc w) \<noteq> Some QnADialog_name
          \<and> luisRecognizers E locale = Some recognizer
          \<and> topIntent = LuisRecognizer_topIntent (recognizer (dc w)) None LUIS_CONFIDENCE_THRESHOLD
          \<and> activeDialog E s = Some d \<and> d \<noteq> CancelDialog_name \<longrightarrow>
          routeMessage E locale act w =
            Inr (DIALOG_TURN_RESULT_DEFAULT,
                 \<lparr>dc = repromptDialog E s,
                  calls = calls w @ [Recognize locale, IsTurnInterrupted topIntent,
                                     RepromptDialog]\<rparr>)"
    by (auto simp add: routeMessage_def stepsBeforeDispatch_def continueQnA_def
        luis_recognize_def Let_def interruptionStep_def chitchat_isTurnInterrupted_def
        dc_repromptDialog_def fallbackDispatch_def DIALOG_TURN_RESULT_DEFAULT_def)
  from a b c d e f show ?thesis
    by blast
qed

theorem interruption_step_witness:
  "isTurnInterrupted stubCollaborators ''Greeting'' (dc (turn_of stub_interrupted)) =
     (True, stub_interrupted)
   \<and> activeDialog stubCollaborators stub_interrupted = Some ''GreetingDialog''
   \<and> ''GreetingDialog'' \<noteq> CancelDialog_name
   \<and> interruptionStep stubCollaborators ''Greeting'' DIALOG_TURN_RESULT_DEFAULT
         (turn_of stub_interrupted) =
       (DIALOG_TURN_RESULT_DEFAULT,
        \<lparr>dc = repromptDialog stubCollaborators stub_interrupted,
         calls = calls (turn_of stub_interrupted) @ [IsTurnInterrupted ''Greeting'', RepromptDialog]\<rparr>)
   \<and> routeMessage stubCollaborators ''en-us'' (message ''help'' []) (turn_of stub_interrupted) =
       Inr (\<lparr>status = Waiting, result = None\<rparr>,
            \<lparr>dc = stub_interrupted\<lparr>stub_responded := True\<rparr>,
             calls = [Recognize ''en-us'', IsTurnInterrupted ''Greeting'', RepromptDialog]\<rparr>)
   \<and> fallbackDispatch stubCollaborators (stub_recognizer stub_interrupted) ''Greeting''
         \<lparr>status = Empty, result = None\<rparr>
         \<lparr>dc = repromptDialog stubCollaborators
                 (stub_interrupted\<lparr>stub_reprompt_replies := False\<rparr>),
          calls = [IsTurnInterrupted ''Greeting'', RepromptDialog]\<rparr> =
       (\<lparr>status = Waiting, result = None\<rparr>,
        \<lparr>dc = stub_interrupted\<lparr>stub_reprompt_replies := False,
                                 stub_stack := [''GreetingDialog'', ''GreetingDialog''],
                                 stub_responded := True,
                                 stub_begun := [(''GreetingDialog'', Some ''entities'')]\<rparr>,
         calls = [IsTurnInterrupted ''Greeting'', RepromptDialog,
                  BeginDialog ''GreetingDialog'' (Some ''entities'')]\<rparr>)"
proof -
  have h: "isTurnInterrupted stubCollaborators ''Greeting'' (dc (turn_of stub_interrupted)) =
     (True, stub_interrupted)"
    by code_simp
  have a: "activeDialog stubCollaborators stub_interrupted = Some ''GreetingDialog''
           \<and> ''GreetingDialog'' \<noteq> CancelDialog_name"
    by code_simp
  have b: "\<not> (utterance_of stubCollaborators (message ''help'' []) = []
               \<and> hasAttachments (message ''help'' []))
     \<and> utterance_of stubCollaborators (message ''help'' []) \<noteq>
          toLowerCase stubCollaborators (gettext stubCollaborators ''en-us'' ''restartCommand'')
     \<and> activeDialog stubCollaborators (dc (turn_of stub_interrupted)) \<noteq> Some QnADialog_name
     \<and> ''Greeting'' = LuisRecognizer_topIntent (stub_recognizer (dc (turn_of stub_interrupted)))
                        None LUIS_CONFIDENCE_THRESHOLD"
    by code_simp
  have l: "luisRecognizers stubCollaborators ''en-us'' = Some stub_recognizer"
    by (simp add: stubCollaborators_def)
  note c = interruption_step [OF h, of DIALOG_TURN_RESULT_DEFAULT _ "message ''help'' []"
      "''en-us''" stub_recognizer]
  from c a have s: "interruptionStep stubCollaborators ''Greeting'' DIALOG_TURN_RESULT_DEFAULT
         (turn_of stub_interrupted) =
       (DIALOG_TURN_RESULT_DEFAULT,
        \<lparr>dc = repromptDialog stubCollaborators stub_interrupted,
         calls = calls (turn_of stub_interrupted) @ [IsTurnInterrupted ''Greeting'', RepromptDialog]\<rparr>)"
    by blast
  from c a b l have t: "routeMessage stubCollaborators ''en-us'' (message ''help'' [])
      (turn_of stub_interrupted) =
       Inr (DIALOG_TURN_RESULT_DEFAULT,
            \<lparr>dc = repromptDialog stubCollaborators stub_interrupted,
             calls = calls (turn_of stub_interrupted) @
               [Recognize ''en-us'', IsTurnInterrupted ''Greeting'', RepromptDialog]\<rparr>)"
    by blast
  have r: "routeMessage stubCollaborators ''en-us'' (message ''help'' [])
      (turn_of stub_interrupted) =
       Inr (\<lparr>status = Waiting, result = None\<rparr>,
            \<lparr>dc = stub_interrupted\<lparr>stub_responded := True\<rparr>,
             calls = [Recognize ''en-us'', IsTurnInterrupted ''Greeting'', RepromptDialog]\<rparr>)"
    unfolding t
    by code_simp
  have h': "isTurnInterrupted stubCollaborators ''Greeting''
      (dc (turn_of (stub_interrupted\<lparr>stub_reprompt_replies := False\<rparr>))) =
     (True, stub_interrupted\<lparr>stub_reprompt_replies := False\<rparr>)"
    by code_simp
  have n: "status \<lparr>status = Empty, result = None :: string option\<rparr> = Empty
     \<and> \<not> responded stubCollaborators
           (repromptDialog stubCollaborators (stub_interrupted\<lparr>stub_reprompt_replies := False\<rparr>))"
    by code_simp
  note c' = interruption_step [OF h', of "\<lparr>status = Empty, result = None\<rparr>"
      "stub_recognizer stub_interrupted" "message ''help'' []" "''en-us''" stub_recognizer]
  from c' n have e: "fallbackDispatch stubCollaborators (stub_recognizer stub_interrupted)
      ''Greeting'' \<lparr>status = Empty, result = None\<rparr>
      \<lparr>dc = repromptDialog stubCollaborators (stub_interrupted\<lparr>stub_reprompt_replies := False\<rparr>),
       calls = calls (turn_of (stub_interrupted\<lparr>stub_reprompt_replies := False\<rparr>)) @
         [IsTurnInterrupted ''Greeting'', RepromptDialog]\<rparr> =
      (case beginDialog stubCollaborators
              (if ''Greeting'' = GREETING_INTENT then GreetingDialog_name else QnADialog_name)
              (if ''Greeting'' = GREETING_INTENT
               then Some (entities (stub_recognizer stub_interrupted)) else None)
              (repromptDialog stubCollaborators
                 (stub_interrupted\<lparr>stub_reprompt_replies := False\<rparr>)) of
         (r, s') \<Rightarrow>
           (r, \<lparr>dc = s',
                calls = calls (turn_of (stub_interrupted\<lparr>stub_reprompt_replies := False\<rparr>)) @
                  [IsTurnInterrupted ''Greeting'', RepromptDialog,
                   BeginDialog
                     (if ''Greeting'' = GREETING_INTENT
                      then GreetingDialog_name else QnADialog_name)
                     (if ''Greeting'' = GREETING_INTENT
                      then Some (entities (stub_recognizer stub_interrupted)) else None)]\<rparr>))"
    by blast
  have c0: "calls (turn_of (stub_interrupted\<lparr>stub_reprompt_replies := False\<rparr>)) = []"
    by (simp add: turn_of_def)
  have e': "fallbackDispatch stubCollaborators (stub_recognizer stub_interrupted) ''Greeting''
         \<lparr>status = Empty, result = None\<rparr>
         \<lparr>dc = repromptDialog stubCollaborators
                 (stub_interrupted\<lparr>stub_reprompt_replies := False\<rparr>),
          calls = [IsTurnInterrupted ''Greeting'', RepromptDialog]\<rparr> =
       (\<lparr>status = Waiting, result = None\<rparr>,
        \<lparr>dc = stub_interrupted\<lparr>stub_reprompt_replies := False,
                                 stub_stack := [''GreetingDialog'', ''GreetingDialog''],
                                 stub_responded := True,
                                 stub_begun := [(''GreetingDialog'', Some ''entities'')]\<rparr>,
         calls = [IsTurnInterrupted ''Greeting'', RepromptDialog,
                  BeginDialog ''GreetingDialog'' (Some ''entities'')]\<rparr>)"
    using e unfolding c0 append_Nil
    by code_simp
  from h a s r e' show ?thesis
    by blast
qed

subsection \<open>Attachments\<close>

text \<open>
  C7. On a message turn whose utterance (the text, trimmed and in lower case by the
  runtime, as line 143 tests it) is empty and which has at least one attachment,
  \<open>routeMessage\<close> makes one call, sending the attachment response of the locale, and
  returns the default turn result, whose status is \<open>Waiting\<close>. Through
  \<open>onContinueDialog\<close> the locale is the resolved one. This holds whatever the
  runtime's \<open>trim\<close> and \<open>toLowerCase\<close> compute.
\<close>

theorem attachment_only_turn:
  assumes "utterance_of E act = []" and "hasAttachments act"
  shows "routeMessage E locale act w =
           Inr (DIALOG_TURN_RESULT_DEFAULT,
                \<lparr>dc = sendActivity E (gettext E locale ''attachmentResponse'') (dc w),
                 calls = calls w @ [SendActivity (gettext E locale ''attachmentResponse'')]\<rparr>)
         \<and> status (DIALOG_TURN_RESULT_DEFAULT :: 'a DialogTurnResult) = Waiting
         \<and> (activity_type act = Message \<longrightarrow>
              onContinueDialog E act w =
                (case resolveLocale E act w of
                   (locale', w') \<Rightarrow>
                     Inr (DIALOG_TURN_RESULT_DEFAULT,
                          context_sendActivity E (gettext E locale' ''attachmentResponse'') w')))"
  using assms
  by (simp add: routeMessage_def context_sendActivity_def DIALOG_TURN_RESULT_DEFAULT_def
      onContinueDialog_def split: prod.splits)

theorem attachment_only_turn_witness:
  "utterance_of stubCollaborators (message ''  '' [''photo.png'']) = [] \<and>
   hasAttachments (message ''  '' [''photo.png'']) \<and>
   onContinueDialog stubCollaborators (message ''  '' [''photo.png'']) (turn_of stub_idle) =
     Inr (\<lparr>status = Waiting, result = None :: string option\<rparr>,
          \<lparr>dc = stub_idle\<lparr>stub_responded := True,
                          stub_sent := [''Sorry, I cannot read attachments.'']\<rparr>,
           calls = [SendActivity ''Sorry, I cannot read attachments.'']\<rparr>)"
proof -
  have u: "utterance_of stubCollaborators (message ''  '' [''photo.png'']) = []"
    by code_simp
  have a: "hasAttachments (message ''  '' [''photo.png''])"
    by code_simp
  have m: "activity_type (message ''  '' [''photo.png'']) = Message"
    by (simp add: message_def)
  have r: "(case resolveLocale stubCollaborators (message ''  '' [''photo.png'']) (turn_of stub_idle) of
              (locale', w') \<Rightarrow>
                (Inr (DIALOG_TURN_RESULT_DEFAULT,
                      context_sendActivity stubCollaborators
                        (gettext stubCollaborators locale' ''attachmentResponse'') w')
                 :: error + _)) =
           Inr (\<lparr>status = Waiting, result = None :: string option\<rparr>,
          \<lparr>dc = stub_idle\<lparr>stub_responded := True,
                          stub_sent := [''Sorry, I cannot read attachments.'']\<rparr>,
           calls = [SendActivity ''Sorry, I cannot read attachments.'']\<rparr>)"
    by code_simp
  have "onContinueDialog stubCollaborators (message ''  '' [''photo.png'']) (turn_of stub_idle) =
          (case resolveLocale stubCollaborators (message ''  '' [''photo.png'']) (turn_of stub_idle) of
              (locale', w') \<Rightarrow>
                Inr (DIALOG_TURN_RESULT_DEFAULT,
                      context_sendActivity stubCollaborators
                        (gettext stubCollaborators locale' ''attachmentResponse'') w'))"
    using attachment_only_turn [OF u a, of "''en-us''" "turn_of stub_idle"] m
    by blast
  with r u a show ?thesis
    by simp
qed

subsection \<open>A status the router does not know\<close>

text \<open>
  C8, as stated, fails: the dispatch on the status is guarded by \<^verbatim>\<open>!dc.context.responded\<close>.
  Here the active dialog replies and reports \<^verbatim>\<open>cancelled\<close>; the router returns that status
  and does not cancel the dialogs.
\<close>

theorem anomalous_status_reset_counterexample:
  "routeMessage stubCollaborators ''en-us'' (message ''hello'' [])
     (turn_of stub_cancelled_after_reply) =
     Inr (\<lparr>status = Other ''cancelled'', result = None\<rparr>,
          \<lparr>dc = stub_cancelled_after_reply\<lparr>stub_stack := [], stub_responded := True\<rparr>,
           calls = [Recognize ''en-us'', IsTurnInterrupted ''Greeting'', ContinueDialog]\<rparr>)
   \<and> CancelAllDialogs \<notin>
       set [Recognize ''en-us'', IsTurnInterrupted ''Greeting'', ContinueDialog :: string Call]"
  by code_simp

text \<open>
  C8, amended. On a message turn that is neither an attachment-only turn nor the restart
  command, let the steps before the dispatch end with a status other than \<open>Empty\<close>,
  \<open>Waiting\<close> and \<open>Complete\<close>. If nothing has been sent yet, the router cancels all
  dialogs and returns the turn result; no error is raised. If something has been sent,
  the router returns the turn result and the state as they are.
\<close>

theorem anomalous_status_reset:
  assumes "\<not> (utterance_of E act = [] \<and> hasAttachments act)"
    and "utterance_of E act \<noteq> toLowerCase E (gettext E locale ''restartCommand'')"
    and "stepsBeforeDispatch E locale w = Inr (results, topIntent, turnResult, w1)"
    and "status turnResult = Other name"
  shows "(\<not> responded E (dc w1) \<longrightarrow>
            routeMessage E locale act w =
              Inr (turnResult,
                   \<lparr>dc = cancelAllDialogs E (dc w1), calls = calls w1 @ [CancelAllDialogs]\<rparr>))
       \<and> (responded E (dc w1) \<longrightarrow> routeMessage E locale act w = Inr (turnResult, w1))"
  using assms
  by (auto simp add: routeMessage_def Let_def fallbackDispatch_def dc_cancelAllDialogs_def)

theorem anomalous_status_reset_witness:
  "\<not> (utterance_of stubCollaborators (message ''hello'' []) = [] \<and> hasAttachments (message ''hello'' []))
   \<and> utterance_of stubCollaborators (message ''hello'' []) \<noteq>
       toLowerCase stubCollaborators (gettext stubCollaborators ''en-us'' ''restartCommand'')
   \<and> stepsBeforeDispatch stubCollaborators ''en-us'' (turn_of stub_cancelled_silently) =
       Inr (stub_recognizer stub_cancelled_silently, ''Greeting'',
            \<lparr>status = Other ''cancelled'', result = None\<rparr>,
            \<lparr>dc = stub_cancelled_silently\<lparr>stub_stack := []\<rparr>,
             calls = [Recognize ''en-us'', IsTurnInterrupted ''Greeting'', ContinueDialog]\<rparr>)
   \<and> \<not> responded stubCollaborators (stub_cancelled_silently\<lparr>stub_stack := []\<rparr>)
   \<and> routeMessage stubCollaborators ''en-us'' (message ''hello'' [])
         (turn_of stub_cancelled_silently) =
       Inr (\<lparr>status = Other ''cancelled'', result = None\<rparr>,
            \<lparr>dc = stub_cancelled_silently\<lparr>stub_stack := []\<rparr>,
             calls = [Recognize ''en-us'', IsTurnInterrupted ''Greeting'', ContinueDialog,
                      CancelAllDialogs]\<rparr>)
   \<and> stepsBeforeDispatch stubCollaborators ''en-us'' (turn_of stub_cancelled_after_reply) =
       Inr (stub_recognizer stub_cancelled_after_reply, ''Greeting'',
            \<lparr>status = Other ''cancelled'', result = None\<rparr>,
            \<lparr>dc = stub_cancelled_after_reply\<lparr>stub_stack := [], stub_responded := True\<rparr>,
             calls = [Recognize ''en-us'', IsTurnInterrupted ''Greeting'', ContinueDialog]\<rparr>)
   \<and> responded stubCollaborators
         (stub_cancelled_after_reply\<lparr>stub_stack := [], stub_responded := True\<rparr>)
   \<and> routeMessage stubCollaborators ''en-us'' (message ''hello'' [])
         (turn_of stub_cancelled_after_reply) =
       Inr (\<lparr>status = Other ''cancelled'', result = None\<rparr>,
            \<lparr>dc = stub_cancelled_after_reply\<lparr>stub_stack := [], stub_responded := True\<rparr>,
             calls = [Recognize ''en-us'', IsTurnInterrupted ''Greeting'', ContinueDialog]\<rparr>)"
proof -
  have h1: "\<not> (utterance_of stubCollaborators (message ''hello'' []) = [] \<and> hasAttachments (message ''hello'' []))"
    by code_simp
  have h2: "utterance_of stubCollaborators (message ''hello'' []) \<noteq>
       toLowerCase stubCollaborators (gettext stubCollaborators ''en-us'' ''restartCommand'')"
    by code_simp
  have h3: "stepsBeforeDispatch stubCollaborators ''en-us'' (turn_of stub_cancelled_silently) =
       Inr (stub_recognizer stub_cancelled_silently, ''Greeting'',
            \<lparr>status = Other ''cancelled'', result = None\<rparr>,
            \<lparr>dc = stub_cancelled_silently\<lparr>stub_stack := []\<rparr>,
             calls = [Recognize ''en-us'', IsTurnInterrupted ''Greeting'', ContinueDialog]\<rparr>)"
    by code_simp
  have h4: "status \<lparr>status = Other ''cancelled'', result = None :: string option\<rparr> =
      Other ''cancelled''"
    by simp
  have n: "\<not> responded stubCollaborators (stub_cancelled_silently\<lparr>stub_stack := []\<rparr>)"
    by code_simp
  from anomalous_status_reset [OF h1 h2 h3 h4] n
  have a: "routeMessage stubCollaborators ''en-us'' (message ''hello'' [])
         (turn_of stub_cancelled_silently) =
       Inr (\<lparr>status = Other ''cancelled'', result = None\<rparr>,
            \<lparr>dc = cancelAllDialogs stubCollaborators
                    (dc \<lparr>dc = stub_cancelled_silently\<lparr>stub_stack := []\<rparr>,
                         calls = [Recognize ''en-us'', IsTurnInterrupted ''Greeting'',
                                  ContinueDialog :: string Call]\<rparr>),
             calls = calls \<lparr>dc = stub_cancelled_silently\<lparr>stub_stack := []\<rparr>,
                         calls = [Recognize ''en-us'', IsTurnInterrupted ''Greeting'',
                                  ContinueDialog]\<rparr> @ [CancelAllDialogs]\<rparr>)"
    by simp
  have a': "routeMessage stubCollaborators ''en-us'' (message ''hello'' [])
         (turn_of stub_cancelled_silently) =
       Inr (\<lparr>status = Other ''cancelled'', result = None\<rparr>,
            \<lparr>dc = stub_cancelled_silently\<lparr>stub_stack := []\<rparr>,
             calls = [Recognize ''en-us'', IsTurnInterrupted ''Greeting'', ContinueDialog,
                      CancelAllDialogs]\<rparr>)"
    unfolding a
    by code_simp
  have g3: "stepsBeforeDispatch stubCollaborators ''en-us'' (turn_of stub_cancelled_after_reply) =
       Inr (stub_recognizer stub_cancelled_after_reply, ''Greeting'',
            \<lparr>status = Other ''cancelled'', result = None\<rparr>,
            \<lparr>dc = stub_cancelled_after_reply\<lparr>stub_stack := [], stub_responded := True\<rparr>,
             calls = [Recognize ''en-us'', IsTurnInterrupted ''Greeting'', ContinueDialog]\<rparr>)"
    by code_simp
  have y: "responded stubCollaborators
         (stub_cancelled_after_reply\<lparr>stub_stack := [], stub_responded := True\<rparr>)"
    by code_simp
  from anomalous_status_reset [OF h1 h2 g3 h4] y
  have b: "routeMessage stubCollaborators ''en-us'' (message ''hello'' [])
         (turn_of stub_cancelled_after_reply) =
       Inr (\<lparr>status = Other ''cancelled'', result = None\<rparr>,
            \<lparr>dc = stub_cancelled_after_reply\<lparr>stub_stack := [], stub_responded := True\<rparr>,
             calls = [Recognize ''en-us'', IsTurnInterrupted ''Greeting'', ContinueDialog]\<rparr>)"
    by simp
  from h1 h2 h3 n a' g3 y b show ?thesis
    by blast
qed

subsection \<open>Attachments beside a text\<close>

text \<open>
  C9. On a message turn whose utterance (the text, trimmed and in lower case by the
  runtime) is not empty the attachments play no part: \<open>routeMessage\<close> gives what it
  gives for the same activity without attachments, namely the restart command or the
  steps before the dispatch followed by the dispatch, and none of the calls it makes
  is \<open>sendActivity\<close>. This holds whatever the runtime's \<open>trim\<close> and
  \<open>toLowerCase\<close> compute.
\<close>

theorem attachments_ignored_with_text:
  assumes "utterance_of E act \<noteq> []"
  shows "routeMessage E locale act w =
           routeMessage E locale (act\<lparr>activity_attachments := None\<rparr>) w
    \<and> routeMessage E locale act w =
        (if utterance_of E act = toLowerCase E (gettext E locale ''restartCommand'')
         then Inr (dc_beginDialog E WelcomeDialog_name None
                     (dc_cancelAllDialogs E
                        (userDataAccessor_set_call E
                           (new_UserData\<lparr>userData_locale := Some locale\<rparr>) w)))
         else (case stepsBeforeDispatch E locale w of
                 Inl e \<Rightarrow> Inl e
               | Inr (results, topIntent, turnResult, w') \<Rightarrow>
                   Inr (fallbackDispatch E results topIntent turnResult w')))
    \<and> (\<forall>r w'. routeMessage E locale act w = Inr (r, w') \<longrightarrow>
          (\<exists>cs. calls w' = calls w @ cs \<and> (\<forall>m. SendActivity m \<notin> set cs)))"
proof (intro conjI)
  from assms show "routeMessage E locale act w =
           routeMessage E locale (act\<lparr>activity_attachments := None\<rparr>) w"
    by (simp add: routeMessage_def Let_def utterance_of_def)
  from assms show "routeMessage E locale act w =
        (if utterance_of E act = toLowerCase E (gettext E locale ''restartCommand'')
         then Inr (dc_beginDialog E WelcomeDialog_name None
                     (dc_cancelAllDialogs E
                        (userDataAccessor_set_call E
                           (new_UserData\<lparr>userData_locale := Some locale\<rparr>) w)))
         else (case stepsBeforeDispatch E locale w of
                 Inl e \<Rightarrow> Inl e
               | Inr (results, topIntent, turnResult, w') \<Rightarrow>
                   Inr (fallbackDispatch E results topIntent turnResult w')))"
    by (simp add: routeMessage_def Let_def)
  from assms show "\<forall>r w'. routeMessage E locale act w = Inr (r, w') \<longrightarrow>
          (\<exists>cs. calls w' = calls w @ cs \<and> (\<forall>m. SendActivity m \<notin> set cs))"
    using routeMessage_no_send [of E act "locale" w] by blast
qed

theorem attachments_ignored_with_text_witness:
  "utterance_of stubCollaborators (message ''Hello'' [''photo.png'']) \<noteq> []
   \<and> routeMessage stubCollaborators ''en-us'' (message ''Hello'' [''photo.png''])
         (turn_of stub_idle) =
       routeMessage stubCollaborators ''en-us''
         ((message ''Hello'' [''photo.png''])\<lparr>activity_attachments := None\<rparr>) (turn_of stub_idle)
   \<and> routeMessage stubCollaborators ''en-us'' (message ''Hello'' [''photo.png''])
         (turn_of stub_idle) =
       Inr (\<lparr>status = Waiting, result = None\<rparr>,
            \<lparr>dc = stub_idle\<lparr>stub_stack := [''GreetingDialog''], stub_responded := True,
                            stub_begun := [(''GreetingDialog'', Some ''entities'')]\<rparr>,
             calls = [Recognize ''en-us'', IsTurnInterrupted ''Greeting'', ContinueDialog,
                      BeginDialog ''GreetingDialog'' (Some ''entities'')]\<rparr>)"
proof -
  have h: "utterance_of stubCollaborators (message ''Hello'' [''photo.png'']) \<noteq> []"
    by code_simp
  note c = attachments_ignored_with_text [OF h, of "''en-us''" "turn_of stub_idle"]
  have e: "routeMessage stubCollaborators ''en-us''
         ((message ''Hello'' [''photo.png''])\<lparr>activity_attachments := None\<rparr>) (turn_of stub_idle) =
       Inr (\<lparr>status = Waiting, result = None\<rparr>,
            \<lparr>dc = stub_idle\<lparr>stub_stack := [''GreetingDialog''], stub_responded := True,
                            stub_begun := [(''GreetingDialog'', Some ''entities'')]\<rparr>,
             calls = [Recognize ''en-us'', IsTurnInterrupted ''Greeting'', ContinueDialog,
                      BeginDialog ''GreetingDialog'' (Some ''entities'')]\<rparr>)"
    by code_simp
  from c e h show ?thesis
    by simp
qed

subsection \<open>Storing the locale\<close>

text \<open>
  C10, as stated, fails: line 294 reads the accessor with a fresh record as default, and
  for a user with no record that read stores the fresh record. Here the new locale is
  the empty string and the user has no record; afterwards there is one.
\<close>

theorem setUserLocale_frame_counterexample:
  "userDataAccessor_get stubCollaborators (dc (turn_of stub_new_user)) = None
   \<and> setUserLocale stubCollaborators (Some []) (turn_of stub_new_user) =
       \<lparr>dc = stub_new_user\<lparr>stub_userData := Some \<lparr>userData_locale = Some []\<rparr>\<rparr>, calls = []\<rparr>
   \<and> setUserLocale stubCollaborators (Some []) (turn_of stub_new_user) \<noteq> turn_of stub_new_user"
  by code_simp

text \<open>
  C10, amended. When the new locale is \<^verbatim>\<open>undefined\<close>, the empty string, or the stored
  locale, \<open>setUserLocale\<close> makes no call of the accessor's \<open>set\<close>; it leaves the state
  as it is when the user has a record, and when the user has none the state is the one
  in which the accessor has stored the fresh record. When \<open>setUserLocale\<close> does call
  \<open>set\<close>, the new locale is a non-empty string that differs from the stored locale,
  and the call is the only one, with a record that has the new locale: a stored
  non-empty locale is not overwritten with an empty one.
\<close>

theorem setUserLocale_frame:
  "((newLocale = None \<or> newLocale = Some [] \<or> getUserLocale E w = newLocale) \<longrightarrow>
      calls (setUserLocale E newLocale w) = calls w
      \<and> (userDataAccessor_get E (dc w) \<noteq> None \<longrightarrow> setUserLocale E newLocale w = w)
      \<and> (userDataAccessor_get E (dc w) = None \<longrightarrow>
            setUserLocale E newLocale w =
              \<lparr>dc = userDataAccessor_set E new_UserData (dc w), calls = calls w\<rparr>))
   \<and> (calls (setUserLocale E newLocale w) \<noteq> calls w \<longrightarrow>
        (\<exists>l u. newLocale = Some l \<and> l \<noteq> [] \<and> getUserLocale E w \<noteq> Some l
           \<and> userData_locale u = Some l
           \<and> setUserLocale E newLocale w =
               \<lparr>dc = userDataAccessor_set E u
                       (dc (snd (userDataAccessor_get_default E new_UserData w))),
                calls = calls w @ [UserDataSet u]\<rparr>))"
  by (auto simp add: setUserLocale_def getUserLocale_def new_UserData_def
      userDataAccessor_get_default_def userDataAccessor_set_call_def split: option.splits)

theorem setUserLocale_frame_witness:
  "setUserLocale stubCollaborators (Some []) (turn_of stub_idle) = turn_of stub_idle
   \<and> setUserLocale stubCollaborators None (turn_of stub_idle) = turn_of stub_idle
   \<and> getUserLocale stubCollaborators (turn_of stub_idle) = Some ''en-us''
   \<and> setUserLocale stubCollaborators (Some ''en-us'') (turn_of stub_idle) = turn_of stub_idle
   \<and> setUserLocale stubCollaborators None (turn_of stub_new_user) =
       \<lparr>dc = userDataAccessor_set stubCollaborators new_UserData (dc (turn_of stub_new_user)),
        calls = calls (turn_of stub_new_user)\<rparr>
   \<and> calls (setUserLocale stubCollaborators (Some ''es-es'') (turn_of stub_idle)) \<noteq>
       calls (turn_of stub_idle)
   \<and> (\<exists>u. userData_locale u = Some ''es-es''
          \<and> setUserLocale stubCollaborators (Some ''es-es'') (turn_of stub_idle) =
              \<lparr>dc = userDataAccessor_set stubCollaborators u
                      (dc (snd (userDataAccessor_get_default stubCollaborators new_UserData
                                  (turn_of stub_idle)))),
               calls = calls (turn_of stub_idle) @ [UserDataSet u]\<rparr>)"
proof -
  have p: "userDataAccessor_get stubCollaborators (dc (turn_of stub_idle)) \<noteq> None"
    by code_simp
  have q: "userDataAccessor_get stubCollaborators (dc (turn_of stub_new_user)) = None"
    by code_simp
  have a: "setUserLocale stubCollaborators (Some []) (turn_of stub_idle) = turn_of stub_idle"
    using setUserLocale_frame [of "Some []" stubCollaborators "turn_of stub_idle"] p
    by simp
  have b: "setUserLocale stubCollaborators None (turn_of stub_idle) = turn_of stub_idle"
    using setUserLocale_frame [of None stubCollaborators "turn_of stub_idle"] p
    by simp
  have g: "getUserLocale stubCollaborators (turn_of stub_idle) = Some ''en-us''"
    by code_simp
  have c: "setUserLocale stubCollaborators (Some ''en-us'') (turn_of stub_idle) = turn_of stub_idle"
    using setUserLocale_frame [of "Some ''en-us''" stubCollaborators "turn_of stub_idle"] g p
    by simp
  have n: "setUserLocale stubCollaborators None (turn_of stub_new_user) =
       \<lparr>dc = userDataAccessor_set stubCollaborators new_UserData (dc (turn_of stub_new_user)),
        calls = calls (turn_of stub_new_user)\<rparr>"
    using setUserLocale_frame [of None stubCollaborators "turn_of stub_new_user"] q
    by simp
  have d: "calls (setUserLocale stubCollaborators (Some ''es-es'') (turn_of stub_idle)) \<noteq>
       calls (turn_of stub_idle)"
    by code_simp
  with setUserLocale_frame [of "Some ''es-es''" stubCollaborators "turn_of stub_idle"]
  have e: "\<exists>u. userData_locale u = Some ''es-es''
          \<and> setUserLocale stubCollaborators (Some ''es-es'') (turn_of stub_idle) =
              \<lparr>dc = userDataAccessor_set stubCollaborators u
                      (dc (snd (userDataAccessor_get_default stubCollaborators new_UserData
                                  (turn_of stub_idle)))),
               calls = calls (turn_of stub_idle) @ [UserDataSet u]\<rparr>"
    by auto
  from a b g c n d e show ?thesis
    by blast
qed

end
